theory Spec2Isabelle
  imports Complex_Main
begin

section \<open>Values, distributions and the state of a run\<close>

text \<open>
  The two notebooks call a probabilistic-programming library on top of a tensor library.
  A scalar tensor and a Python float are both modelled by the number they hold (type
  \<open>real\<close> in the introductory notebook); the tensors of the network notebook are kept
  abstract (a type variable \<open>'v\<close>).

  A distribution object records the constructor that built it and its arguments.
\<close>

datatype 'v dist =
    Bernoulli 'v
  | Normal 'v 'v
  | Categorical 'v
  | Expand "'v dist" "nat list"
  | ToEvent "'v dist" nat

text \<open>
  An exception is either one raised inside a library call (its payload \<open>'e\<close> is whatever
  the library raised) or Python's own \<open>KeyError\<close> of a dictionary lookup.
\<close>

datatype 'e exn = LibraryError 'e | KeyError string

text \<open>
  The run of a stochastic function is observed through the events it leaves: each
  \<open>pyro.sample\<close> statement (site name, distribution, value, whether the value was
  observed), each \<open>pyro.plate\<close> that is entered, each \<open>if\<close>/\<open>else\<close> that is decided, and
  each exception that a library call raises.
\<close>

datatype ('e, 'v) event =
    SampleSite string "'v dist" 'v bool
  | PlateSite string nat
  | Branch bool
  | LibraryRaised 'e

text \<open>
  The state is the library's global parameter store and the events so far. A computation
  returns a value or an exception, and the state in both cases: what was stored before an
  exception stays stored.
\<close>

record ('e, 'v) pstate =
  store :: "string \<rightharpoonup> 'v"
  trace :: "('e, 'v) event list"

type_synonym ('e, 'v, 'a) py = "('e, 'v) pstate \<Rightarrow> ('e exn + 'a) \<times> ('e, 'v) pstate"

definition return_py :: "'a \<Rightarrow> ('e, 'v, 'a) py" where
  "return_py x = (\<lambda>s. (Inr x, s))"

definition raise_py :: "'e exn \<Rightarrow> ('e, 'v, 'a) py" where
  "raise_py e = (\<lambda>s. (Inl e, s))"

text \<open>
  Sequencing: the notebooks have no \<open>try\<close>, so an exception of the first statement ends
  the function with that exception.
\<close>

definition bind_py :: "('e, 'v, 'a) py \<Rightarrow> ('a \<Rightarrow> ('e, 'v, 'b) py) \<Rightarrow> ('e, 'v, 'b) py" where
  "bind_py m f = (\<lambda>s. case m s of (Inl e, s') \<Rightarrow> (Inl e, s') | (Inr x, s') \<Rightarrow> f x s')"

definition emit :: "('e, 'v) event \<Rightarrow> ('e, 'v, unit) py" where
  "emit ev = (\<lambda>s. (Inr (), s\<lparr>trace := trace s @ [ev]\<rparr>))"

definition library_call :: "'e + 'a \<Rightarrow> ('e, 'v, 'a) py" where
  "library_call r =
     (case r of
        Inl e \<Rightarrow> bind_py (emit (LibraryRaised e)) (\<lambda>_. raise_py (LibraryError e))
      | Inr x \<Rightarrow> return_py x)"

text \<open>
  A conditional (\<open>A if c else B\<close>) evaluates its test, which is recorded, and continues
  with the chosen side. A short-circuit \<open>and\<close> inside the test is part of the test.
\<close>

definition branch :: "bool \<Rightarrow> ('e, 'v, bool) py" where
  "branch c = bind_py (emit (Branch c)) (\<lambda>_. return_py c)"

text \<open>Subscripting a dictionary literal: \<open>{k1: v1, ...}[k]\<close> raises \<open>KeyError\<close> on a missing key.\<close>

definition dict_get :: "(string \<times> 'a) list \<Rightarrow> string \<Rightarrow> ('e, 'v, 'a) py" where
  "dict_get d k = (case map_of d k of None \<Rightarrow> raise_py (KeyError k) | Some v \<Rightarrow> return_py v)"

section \<open>The library primitives the notebooks call\<close>

text \<open>
  What the library does at an unobserved sample statement (validate the distribution, draw
  a value, or raise) is a parameter of every model: \<open>draw\<close>. The observations installed by
  an enclosing \<open>pyro.condition\<close> are the field \<open>conditioning\<close>.
\<close>

record ('e, 'v) runtime =
  draw :: "string \<Rightarrow> 'v dist \<Rightarrow> 'e + 'v"
  conditioning :: "string \<rightharpoonup> 'v"

text \<open>
  Modelled from the spec: \<open>pyro.sample\<close> is a function of the external library, absent from
  the repository. Following the notebook's description, a sample statement is named; it
  uses the value given with \<open>obs=\<close> when there is one, else the value a surrounding
  \<open>pyro.condition\<close> gives for its name, else a draw from its distribution.
\<close>

definition pyro_sample ::
  "('e, 'v) runtime \<Rightarrow> string \<Rightarrow> 'v dist \<Rightarrow> 'v option \<Rightarrow> ('e, 'v, 'v) py" where
  "pyro_sample R name d obs =
     (case obs of
        Some v \<Rightarrow> bind_py (emit (SampleSite name d v True)) (\<lambda>_. return_py v)
      | None \<Rightarrow>
          (case conditioning R name of
             Some v \<Rightarrow> bind_py (emit (SampleSite name d v True)) (\<lambda>_. return_py v)
           | None \<Rightarrow>
               bind_py (library_call (draw R name d)) (\<lambda>v.
               bind_py (emit (SampleSite name d v False)) (\<lambda>_. return_py v))))"

text \<open>
  Modelled from the spec: \<open>pyro.condition\<close> is a function of the external library. Following
  the notebook's description it "takes a model and a dictionary of observations and returns
  a new model that has the same input and output signatures but always uses the given values
  at observed sample statements".
\<close>

definition pyro_condition ::
  "(('e, 'v) runtime \<Rightarrow> ('e, 'v, 'a) py) \<Rightarrow> (string \<times> 'v) list \<Rightarrow>
   (('e, 'v) runtime \<Rightarrow> ('e, 'v, 'a) py)" where
  "pyro_condition fn data =
     (\<lambda>R. fn (R\<lparr>conditioning := conditioning R ++ map_of data\<rparr>))"

text \<open>
  Modelled from the spec: \<open>pyro.param\<close> and \<open>pyro.clear_param_store\<close> are functions of the
  external library. Following the spec ("a named parameter stored in a global mutable
  key-value store") and the notebook: the first call with a name stores its argument and
  returns it; later calls with that name return the stored value whatever the other
  arguments; clearing empties the store.
\<close>

definition pyro_param :: "string \<Rightarrow> 'v \<Rightarrow> ('e, 'v, 'v) py" where
  "pyro_param name init =
     (\<lambda>s. case store s name of
             Some v \<Rightarrow> (Inr v, s)
           | None \<Rightarrow> (Inr init, s\<lparr>store := (store s)(name \<mapsto> init)\<rparr>))"

definition pyro_clear_param_store :: "('e, 'v, unit) py" where
  "pyro_clear_param_store = (\<lambda>s. (Inr (), s\<lparr>store := Map.empty\<rparr>))"

section \<open>The models of the introductory notebook\<close>

text \<open>
  \<^verbatim>\<open>
  def weather():
      cloudy = pyro.sample('cloudy', dist.Bernoulli(0.3))
      weather_type = 'cloudy' if cloudy.item() == 1.0 else 'sunny'
      loc = {'cloudy': 55.0, 'sunny': 75.0}[weather_type]
      scale = {'cloudy': 10.0, 'sunny': 15.0}[weather_type]
      temperature = pyro.sample('temperature', dist.Normal(loc, scale))
      return weather_type, temperature
  \<close>
\<close>

definition weather :: "('e, real) runtime \<Rightarrow> ('e, real, string \<times> real) py" where
  "weather R =
     bind_py (pyro_sample R ''cloudy'' (Bernoulli (3 / 10)) None) (\<lambda>cloudy.
     bind_py (branch (cloudy = 1)) (\<lambda>c.
     let weather_type = (if c then ''cloudy'' else ''sunny'') in
     bind_py (dict_get [(''cloudy'', 55), (''sunny'', 75)] weather_type) (\<lambda>loc.
     bind_py (dict_get [(''cloudy'', 10), (''sunny'', 15)] weather_type) (\<lambda>scale.
     bind_py (pyro_sample R ''temperature'' (Normal loc scale) None) (\<lambda>temperature.
     return_py (weather_type, temperature))))))"

text \<open>
  \<^verbatim>\<open>
  def ice_cream_sales():
      weather_type, temperature = weather()
      expected_sales = 200. if weather_type == 'sunny' and temperature > 80.0 else 50.
      ice_cream = pyro.sample('ice_cream', pyro.distributions.Normal(expected_sales, 10.0))
      return weather_type, ice_cream
  \<close>
\<close>

definition ice_cream_sales :: "('e, real) runtime \<Rightarrow> ('e, real, string \<times> real) py" where
  "ice_cream_sales R =
     bind_py (weather R) (\<lambda>(weather_type, temperature).
     bind_py (branch (weather_type = ''sunny'' \<and> temperature > 80)) (\<lambda>c.
     let expected_sales = (if c then 200 else 50) in
     bind_py (pyro_sample R ''ice_cream'' (Normal expected_sales 10) None) (\<lambda>ice_cream.
     return_py (weather_type, ice_cream))))"

text \<open>
  \<^verbatim>\<open>
  def scale():
      weight = pyro.sample("weight", dist.Normal(10, 1.0))
      measurement = pyro.sample("measurement", dist.Normal(weight, 0.75))
      return measurement
  conditioned_scale = pyro.condition(scale, data={"measurement": torch.tensor(14.)})
  def scale_obs():  # equivalent to conditioned_scale above
      weight = pyro.sample("weight", dist.Normal(10, 1.0))
      measurement = pyro.sample("measurement", dist.Normal(weight, 0.75), obs=14.)
      return measurement
  \<close>
\<close>

definition scale :: "('e, real) runtime \<Rightarrow> ('e, real, real) py" where
  "scale R =
     bind_py (pyro_sample R ''weight'' (Normal 10 1) None) (\<lambda>weight.
     bind_py (pyro_sample R ''measurement'' (Normal weight (3 / 4)) None) (\<lambda>measurement.
     return_py measurement))"

definition conditioned_scale :: "('e, real) runtime \<Rightarrow> ('e, real, real) py" where
  "conditioned_scale = pyro_condition scale [(''measurement'', 14)]"

definition scale_obs :: "('e, real) runtime \<Rightarrow> ('e, real, real) py" where
  "scale_obs R =
     bind_py (pyro_sample R ''weight'' (Normal 10 1) None) (\<lambda>weight.
     bind_py (pyro_sample R ''measurement'' (Normal weight (3 / 4)) (Some 14)) (\<lambda>measurement.
     return_py measurement))"

text \<open>
  \<^verbatim>\<open>
  def guide():
      a = pyro.param("a", torch.tensor(1.))
      b = pyro.param("b", torch.tensor(1.))
      return pyro.sample("weight", dist.Normal(a, torch.abs(b)))
  \<close>
\<close>

definition guide :: "('e, real) runtime \<Rightarrow> ('e, real, real) py" where
  "guide R =
     bind_py (pyro_param ''a'' 1) (\<lambda>a.
     bind_py (pyro_param ''b'' 1) (\<lambda>b.
     pyro_sample R ''weight'' (Normal a \<bar>b\<bar>) None))"

text \<open>
  What the claim about \<open>weather\<close> says, in its words: draw \<open>cloudy\<close> from Bernoulli(0.3); if
  the draw equals 1.0 the weather type is cloudy and the temperature comes from
  Normal(55, 10), otherwise sunny and Normal(75, 15); return the pair. No lookup, hence no
  \<open>KeyError\<close>, occurs in it.
\<close>

definition weather_spec :: "('e, real) runtime \<Rightarrow> ('e, real, string \<times> real) py" where
  "weather_spec R =
     bind_py (pyro_sample R ''cloudy'' (Bernoulli (3 / 10)) None) (\<lambda>cloudy.
     bind_py (branch (cloudy = 1)) (\<lambda>c.
     if c
     then bind_py (pyro_sample R ''temperature'' (Normal 55 10) None) (\<lambda>temperature.
          return_py (''cloudy'', temperature))
     else bind_py (pyro_sample R ''temperature'' (Normal 75 15) None) (\<lambda>temperature.
          return_py (''sunny'', temperature))))"

section \<open>Every call into the libraries\<close>

text \<open>
  The tensor library is a parameter as well: every operation the two classes call may raise
  (a shape mismatch, for instance) or return a tensor. \<open>tensor\<close> turns a Python float into
  a tensor, \<open>shape0\<close> is \<open>x.shape[0]\<close>.

  Every other call into the libraries is a point where the library may raise before
  anything else happens: the constructor of a distribution (\<open>dist.Normal\<close> rejects a scale
  that is not positive) and its \<open>.expand\<close> and \<open>.to_event\<close>; a \<open>pyro.sample\<close> statement,
  observed or not; entering a \<open>pyro.plate\<close> (which fails on an empty batch) or the handler
  of \<open>pyro.condition\<close>, and leaving them; \<open>pyro.param\<close>; \<open>torch.tensor\<close> and
  \<open>torch.abs\<close>; a method of a value, \<open>.item()\<close> or the comparison with a number and its
  truth value (a value that is a Python float has no \<open>.item()\<close>); the constructor of a
  module. Which of them raise, and what, is the field \<open>raises\<close>. A call stands for the
  whole step it is in: the reading of the attribute that is called, the call, and the
  assignment of its result to an attribute, all library code for a module.
\<close>

datatype 'v call =
    Construct "'v dist"
  | Statement string "'v dist" "'v option"
  | Plate string nat
  | Condition "(string \<times> 'v) list"
  | Leave string
  | Param string 'v
  | MakeTensor real
  | Abs 'v
  | Item 'v
  | Greater 'v real
  | NewModule string

record 'v linear_layer =
  weight :: 'v
  bias :: 'v

record ('e, 'v) library =
  new_linear :: "nat \<Rightarrow> nat \<Rightarrow> 'e + 'v linear_layer"
  view :: "'v \<Rightarrow> int list \<Rightarrow> 'e + 'v"
  linear_forward :: "'v \<Rightarrow> 'v \<Rightarrow> 'v \<Rightarrow> 'e + 'v"
  relu :: "'v \<Rightarrow> 'e + 'v"
  log_softmax :: "int \<Rightarrow> 'v \<Rightarrow> 'e + 'v"
  shape0 :: "'v \<Rightarrow> 'e + nat"
  tensor :: "real \<Rightarrow> 'v"
  raises :: "'v call \<Rightarrow> 'e option"

definition call :: "('e, 'v) library \<Rightarrow> 'v call \<Rightarrow> ('e, 'v, unit) py" where
  "call T c = library_call (case raises T c of Some e \<Rightarrow> Inl e | None \<Rightarrow> Inr ())"

text \<open>
  A sample statement as a call: \<open>pyro.sample(name, d, obs=...)\<close> on a distribution that
  exists already (as when a \<open>PyroSample\<close> attribute is read), and
  \<open>pyro.sample(name, dist.D(...), obs=...)\<close>, which builds its distribution first.
\<close>

definition pyro_sample_statement ::
  "('e, 'v) library \<Rightarrow> ('e, 'v) runtime \<Rightarrow> string \<Rightarrow> 'v dist \<Rightarrow> 'v option \<Rightarrow> ('e, 'v, 'v) py"
  where
  "pyro_sample_statement T R name d obs =
     bind_py (call T (Statement name d obs)) (\<lambda>_. pyro_sample R name d obs)"

definition pyro_sample_call ::
  "('e, 'v) library \<Rightarrow> ('e, 'v) runtime \<Rightarrow> string \<Rightarrow> 'v dist \<Rightarrow> 'v option \<Rightarrow> ('e, 'v, 'v) py"
  where
  "pyro_sample_call T R name d obs =
     bind_py (call T (Construct d)) (\<lambda>_. pyro_sample_statement T R name d obs)"

text \<open>\<open>pyro.param(name, torch.tensor(r))\<close>: the tensor is built, then the parameter looked up.\<close>

definition pyro_param_call :: "('e, real) library \<Rightarrow> string \<Rightarrow> real \<Rightarrow> ('e, real, real) py" where
  "pyro_param_call T name r =
     bind_py (call T (MakeTensor r)) (\<lambda>_.
     bind_py (call T (Param name r)) (\<lambda>_. pyro_param name r))"

text \<open>
  Modelled from the spec: \<open>pyro.plate\<close> is a context manager of the external library, of
  which the notebook says that it states "that the observations are independent across the
  batch dimension". Entering it may raise; the body then runs inside it; leaving it after
  the body may raise, and an exception of the body leaves the plate as it is.
\<close>

definition pyro_plate ::
  "('e, 'v) library \<Rightarrow> string \<Rightarrow> nat \<Rightarrow> ('e, 'v, 'a) py \<Rightarrow> ('e, 'v, 'a) py" where
  "pyro_plate T name n body =
     bind_py (call T (Plate name n)) (\<lambda>_.
     bind_py (emit (PlateSite name n)) (\<lambda>_.
     bind_py body (\<lambda>result.
     bind_py (call T (Leave name)) (\<lambda>_.
     return_py result))))"

section \<open>The networks of the second notebook\<close>

text \<open>
  \<^verbatim>\<open>
  class NN(torch.nn.Module):
      def __init__(self, input_size, hidden_size, output_size):
          super().__init__()
          self.fc1 = torch.nn.Linear(input_size, hidden_size)
          self.fc2 = torch.nn.Linear(hidden_size, output_size)
          self.relu = torch.nn.ReLU()
          self.log_softmax = torch.nn.LogSoftmax(dim=1)
      def forward(self, x):
          x = x.view(-1, 28*28)
          x = self.relu(self.fc1(x))
          x = self.fc2(x)
          x = self.log_softmax(x)
          return x
  \<close>
\<close>

record 'v NN =
  fc1 :: "'v linear_layer"
  fc2 :: "'v linear_layer"
  log_softmax_dim :: int

definition NN_init :: "('e, 'v) library \<Rightarrow> nat \<Rightarrow> nat \<Rightarrow> nat \<Rightarrow> ('e, 'v, 'v NN) py" where
  "NN_init T input_size hidden_size output_size =
     bind_py (call T (NewModule ''Module'')) (\<lambda>_.
     bind_py (library_call (new_linear T input_size hidden_size)) (\<lambda>l1.
     bind_py (library_call (new_linear T hidden_size output_size)) (\<lambda>l2.
     bind_py (call T (NewModule ''ReLU'')) (\<lambda>_.
     bind_py (call T (NewModule ''LogSoftmax'')) (\<lambda>_.
     return_py \<lparr>fc1 = l1, fc2 = l2, log_softmax_dim = 1\<rparr>)))))"

definition NN_forward :: "('e, 'v) library \<Rightarrow> 'v NN \<Rightarrow> 'v \<Rightarrow> ('e, 'v, 'v) py" where
  "NN_forward T self x0 =
     bind_py (library_call (view T x0 [- 1, 28 * 28])) (\<lambda>x.
     bind_py (library_call (linear_forward T x (weight (fc1 self)) (bias (fc1 self)))) (\<lambda>h.
     bind_py (library_call (relu T h)) (\<lambda>x.
     bind_py (library_call (linear_forward T x (weight (fc2 self)) (bias (fc2 self)))) (\<lambda>x.
     bind_py (library_call (log_softmax T (log_softmax_dim self) x)) (\<lambda>x.
     return_py x)))))"

text \<open>
  In the Bayesian network the weight and the bias of each linear layer are
  \<open>pyro.nn.PyroSample\<close> attributes: reading one inside \<open>forward\<close> is a sample statement named
  after the attribute ("fc1.weight", "fc1.bias", "fc2.weight", "fc2.bias", as the notebook's
  hint lists them), from the prior given in \<open>__init__\<close>. A linear layer reads its weight,
  then its bias.
  \<^verbatim>\<open>
  class BNN(pyro.nn.PyroModule):
      def __init__(self, input_size, hidden_size, output_size):
          super().__init__()
          self.fc1 = PyroLinear(input_size, hidden_size)
          self.fc1.weight = pyro.nn.PyroSample(dist.Normal(0., 1.).expand([hidden_size, input_size]).to_event(2))
          self.fc1.bias   = pyro.nn.PyroSample(dist.Normal(0., 1.).expand([hidden_size]).to_event(1))
          self.fc2 = PyroLinear(hidden_size, output_size)
          self.fc2.weight = pyro.nn.PyroSample(dist.Normal(0., 1.).expand([output_size, hidden_size]).to_event(2))
          self.fc2.bias   = pyro.nn.PyroSample(dist.Normal(0., 1.).expand([output_size]).to_event(1))
          self.relu = torch.nn.ReLU()
          self.log_softmax = torch.nn.LogSoftmax(dim=1)
      def forward(self, x, y=None):
          x = x.view(-1, 28*28)
          x = self.relu(self.fc1(x))
          x = self.fc2(x)
          x = self.log_softmax(x)
          with pyro.plate("data", x.shape[0]):
              obs = pyro.sample("obs", dist.Categorical(logits=x), obs=y)
  \<close>
\<close>

record 'v pyro_linear =
  weight_prior :: "'v dist"
  bias_prior :: "'v dist"

record 'v BNN =
  bnn_fc1 :: "'v pyro_linear"
  bnn_fc2 :: "'v pyro_linear"
  bnn_log_softmax_dim :: int

text \<open>
  \<open>pyro.nn.PyroSample(dist.Normal(0., 1.).expand(shape).to_event(n))\<close>: three distribution
  objects are built, then the attribute.
\<close>

definition PyroSample :: "('e, 'v) library \<Rightarrow> nat list \<Rightarrow> nat \<Rightarrow> ('e, 'v, 'v dist) py" where
  "PyroSample T shape n =
     bind_py (call T (Construct (Normal (tensor T 0) (tensor T 1)))) (\<lambda>_.
     bind_py (call T (Construct (Expand (Normal (tensor T 0) (tensor T 1)) shape))) (\<lambda>_.
     bind_py (call T (Construct (ToEvent (Expand (Normal (tensor T 0) (tensor T 1)) shape) n)))
       (\<lambda>_.
     bind_py (call T (NewModule ''PyroSample'')) (\<lambda>_.
     return_py (ToEvent (Expand (Normal (tensor T 0) (tensor T 1)) shape) n)))))"

definition BNN_init :: "('e, 'v) library \<Rightarrow> nat \<Rightarrow> nat \<Rightarrow> nat \<Rightarrow> ('e, 'v, 'v BNN) py" where
  "BNN_init T input_size hidden_size output_size =
     bind_py (call T (NewModule ''PyroModule'')) (\<lambda>_.
     bind_py (library_call (new_linear T input_size hidden_size)) (\<lambda>_.
     bind_py (PyroSample T [hidden_size, input_size] 2) (\<lambda>w1.
     bind_py (PyroSample T [hidden_size] 1) (\<lambda>b1.
     bind_py (library_call (new_linear T hidden_size output_size)) (\<lambda>_.
     bind_py (PyroSample T [output_size, hidden_size] 2) (\<lambda>w2.
     bind_py (PyroSample T [output_size] 1) (\<lambda>b2.
     bind_py (call T (NewModule ''ReLU'')) (\<lambda>_.
     bind_py (call T (NewModule ''LogSoftmax'')) (\<lambda>_.
     return_py \<lparr>bnn_fc1 = \<lparr>weight_prior = w1, bias_prior = b1\<rparr>,
                bnn_fc2 = \<lparr>weight_prior = w2, bias_prior = b2\<rparr>,
                bnn_log_softmax_dim = 1\<rparr>)))))))))"

definition BNN_forward ::
  "('e, 'v) runtime \<Rightarrow> ('e, 'v) library \<Rightarrow> 'v BNN \<Rightarrow> 'v \<Rightarrow> 'v option \<Rightarrow> ('e, 'v, unit) py" where
  "BNN_forward R T self x0 y =
     bind_py (library_call (view T x0 [- 1, 28 * 28])) (\<lambda>x.
     bind_py (pyro_sample_statement T R ''fc1.weight'' (weight_prior (bnn_fc1 self)) None) (\<lambda>w1.
     bind_py (pyro_sample_statement T R ''fc1.bias'' (bias_prior (bnn_fc1 self)) None) (\<lambda>b1.
     bind_py (library_call (linear_forward T x w1 b1)) (\<lambda>h.
     bind_py (library_call (relu T h)) (\<lambda>x.
     bind_py (pyro_sample_statement T R ''fc2.weight'' (weight_prior (bnn_fc2 self)) None) (\<lambda>w2.
     bind_py (pyro_sample_statement T R ''fc2.bias'' (bias_prior (bnn_fc2 self)) None) (\<lambda>b2.
     bind_py (library_call (linear_forward T x w2 b2)) (\<lambda>x.
     bind_py (library_call (log_softmax T (bnn_log_softmax_dim self) x)) (\<lambda>x.
     bind_py (library_call (shape0 T x)) (\<lambda>n.
     bind_py (pyro_plate T ''data'' n (pyro_sample_call T R ''obs'' (Categorical x) y)) (\<lambda>obs.
     return_py ())))))))))))"

section \<open>The functions of the first notebook, call by call\<close>

text \<open>
  The models of the first notebook above say which values are drawn and returned; there a
  call that draws nothing simply succeeds. For what becomes of an exception, each function
  is written once more with every call into the libraries as a point where the library may
  raise, in the order of the source: the constructor of each distribution and each
  \<open>pyro.sample\<close> statement, \<open>cloudy.item()\<close>, the comparison \<open>temperature > 80.0\<close> (reached
  only when the weather is sunny, \<open>and\<close> being short-circuit), the handler of
  \<open>pyro.condition\<close> around the run of \<open>scale\<close>, \<open>torch.tensor\<close>, \<open>pyro.param\<close> and
  \<open>torch.abs\<close>. With a library in which none of these raises, each is the model above.
\<close>

definition weather_calls ::
  "('e, real) library \<Rightarrow> ('e, real) runtime \<Rightarrow> ('e, real, string \<times> real) py" where
  "weather_calls T R =
     bind_py (pyro_sample_call T R ''cloudy'' (Bernoulli (3 / 10)) None) (\<lambda>cloudy.
     bind_py (call T (Item cloudy)) (\<lambda>_.
     bind_py (branch (cloudy = 1)) (\<lambda>c.
     let weather_type = (if c then ''cloudy'' else ''sunny'') in
     bind_py (dict_get [(''cloudy'', 55), (''sunny'', 75)] weather_type) (\<lambda>loc.
     bind_py (dict_get [(''cloudy'', 10), (''sunny'', 15)] weather_type) (\<lambda>scale.
     bind_py (pyro_sample_call T R ''temperature'' (Normal loc scale) None) (\<lambda>temperature.
     return_py (weather_type, temperature)))))))"

definition ice_cream_sales_calls ::
  "('e, real) library \<Rightarrow> ('e, real) runtime \<Rightarrow> ('e, real, string \<times> real) py" where
  "ice_cream_sales_calls T R =
     bind_py (weather_calls T R) (\<lambda>(weather_type, temperature).
     bind_py (if weather_type = ''sunny'' then call T (Greater temperature 80) else return_py ())
       (\<lambda>_.
     bind_py (branch (weather_type = ''sunny'' \<and> temperature > 80)) (\<lambda>c.
     let expected_sales = (if c then 200 else 50) in
     bind_py (pyro_sample_call T R ''ice_cream'' (Normal expected_sales 10) None) (\<lambda>ice_cream.
     return_py (weather_type, ice_cream)))))"

definition scale_calls :: "('e, real) library \<Rightarrow> ('e, real) runtime \<Rightarrow> ('e, real, real) py" where
  "scale_calls T R =
     bind_py (pyro_sample_call T R ''weight'' (Normal 10 1) None) (\<lambda>weight.
     bind_py (pyro_sample_call T R ''measurement'' (Normal weight (3 / 4)) None) (\<lambda>measurement.
     return_py measurement))"

definition conditioned_scale_calls ::
  "('e, real) library \<Rightarrow> ('e, real) runtime \<Rightarrow> ('e, real, real) py" where
  "conditioned_scale_calls T R =
     bind_py (call T (Condition [(''measurement'', 14)])) (\<lambda>_.
     bind_py (pyro_condition (scale_calls T) [(''measurement'', 14)] R) (\<lambda>measurement.
     bind_py (call T (Leave ''condition'')) (\<lambda>_.
     return_py measurement)))"

definition scale_obs_calls ::
  "('e, real) library \<Rightarrow> ('e, real) runtime \<Rightarrow> ('e, real, real) py" where
  "scale_obs_calls T R =
     bind_py (pyro_sample_call T R ''weight'' (Normal 10 1) None) (\<lambda>weight.
     bind_py (pyro_sample_call T R ''measurement'' (Normal weight (3 / 4)) (Some 14))
       (\<lambda>measurement.
     return_py measurement))"

definition guide_calls :: "('e, real) library \<Rightarrow> ('e, real) runtime \<Rightarrow> ('e, real, real) py" where
  "guide_calls T R =
     bind_py (pyro_param_call T ''a'' 1) (\<lambda>a.
     bind_py (pyro_param_call T ''b'' 1) (\<lambda>b.
     bind_py (call T (Abs b)) (\<lambda>_.
     pyro_sample_call T R ''weight'' (Normal a \<bar>b\<bar>) None)))"

section \<open>Measures on a run\<close>

fun is_branch :: "('e, 'v) event \<Rightarrow> bool" where
  "is_branch (Branch _) = True"
| "is_branch _ = False"

definition branches :: "('e, 'v) event list \<Rightarrow> nat" where
  "branches tr = length (filter is_branch tr)"

fun raised :: "('e, 'v) event list \<Rightarrow> 'e list" where
  "raised [] = []"
| "raised (LibraryRaised e # tr) = e # raised tr"
| "raised (_ # tr) = raised tr"

text \<open>
  A computation takes \<open>n\<close> branches when every run of it only appends events, at most \<open>n\<close>
  decided conditionals among them, and exactly \<open>n\<close> when the run returns.
\<close>

definition takes_branches :: "nat \<Rightarrow> ('e, 'v, 'a) py \<Rightarrow> bool" where
  "takes_branches n m =
     (\<forall>s. \<exists>new. trace (snd (m s)) = trace s @ new \<and> branches new \<le> n \<and>
        (case fst (m s) of Inl _ \<Rightarrow> True | Inr _ \<Rightarrow> branches new = n))"

text \<open>
  A computation lets library exceptions through when every run of it only appends events
  and either returns, no library call having raised, or ends with an exception, which is
  then the one exception a library call raised, unchanged, raised as the last event.
\<close>

definition propagates :: "('e, 'v, 'a) py \<Rightarrow> bool" where
  "propagates m =
     (\<forall>s. \<exists>new. trace (snd (m s)) = trace s @ new \<and>
        (case fst (m s) of
           Inl x \<Rightarrow> \<exists>e. x = LibraryError e \<and> raised new = [e] \<and> last new = LibraryRaised e
         | Inr _ \<Rightarrow> raised new = []))"

text \<open>
  The value \<open>pyro.param\<close> returns for a name: the stored one, else the initial value given.
\<close>

definition stored_or :: "('e, 'v) pstate \<Rightarrow> string \<Rightarrow> 'v \<Rightarrow> 'v" where
  "stored_or s name init = (case store s name of Some v \<Rightarrow> v | None \<Rightarrow> init)"

text \<open>The events a run appended, and the scale arguments of the normal distributions in them.\<close>

definition new_events :: "('e, 'v) pstate \<Rightarrow> ('e, 'v) pstate \<Rightarrow> ('e, 'v) event list" where
  "new_events s s' = drop (length (trace s)) (trace s')"

fun normal_scales :: "('e, 'v) event \<Rightarrow> 'v list" where
  "normal_scales (SampleSite _ (Normal _ sc) _ _) = [sc]"
| "normal_scales _ = []"

text \<open>Runtimes and states to run the models on.\<close>

definition initial :: "(string, real) pstate" where
  "initial = \<lparr>store = Map.empty, trace = []\<rparr>"

definition sunny_day :: "(string, real) runtime" where
  "sunny_day =
     \<lparr>draw = (\<lambda>name d. if name = ''cloudy'' then Inr 0
                        else if name = ''temperature'' then Inr 85
                        else if name = ''weight'' then Inr 9
                        else Inr 210),
      conditioning = Map.empty\<rparr>"

definition cloudy_day :: "(string, real) runtime" where
  "cloudy_day =
     \<lparr>draw = (\<lambda>name d. if name = ''cloudy'' then Inr 1
                        else if name = ''temperature'' then Inr 50
                        else Inr 40),
      conditioning = Map.empty\<rparr>"

definition trained :: "(string, real) pstate" where
  "trained = \<lparr>store = [''a'' \<mapsto> 12, ''b'' \<mapsto> - 3 / 5], trace = []\<rparr>"

definition broken_scale :: "(string, real) runtime" where
  "broken_scale =
     \<lparr>draw = (\<lambda>name d. if name = ''measurement'' then Inl ''invalid parameters'' else Inr 9),
      conditioning = Map.empty\<rparr>"

definition wrong_shape :: "(string, real) library" where
  "wrong_shape =
     \<lparr>new_linear = (\<lambda>i j. Inr \<lparr>weight = 0, bias = 0\<rparr>),
      view = (\<lambda>x shp. Inl ''shape is invalid for input''),
      linear_forward = (\<lambda>x w b. Inr (w * x + b)),
      relu = (\<lambda>x. Inr (max 0 x)),
      log_softmax = (\<lambda>d x. Inr x),
      shape0 = (\<lambda>x. Inr 1),
      tensor = (\<lambda>r. r),
      raises = (\<lambda>c. None)\<rparr>"

definition one_by_one :: "(string, real) library" where
  "one_by_one = wrong_shape\<lparr>view := (\<lambda>x shp. Inr x)\<rparr>"

text \<open>
  A library that is strict where the real one is: a plate of size 0 divides by zero, a
  normal distribution needs a positive scale, and the observed values, being Python floats,
  have no \<open>.item()\<close>. Its batches are empty.
\<close>

fun strict_raises :: "real call \<Rightarrow> string option" where
  "strict_raises (Plate name n) = (if n = 0 then Some ''ZeroDivisionError'' else None)"
| "strict_raises (Construct (Normal loc sc)) = (if sc \<le> 0 then Some ''ValueError'' else None)"
| "strict_raises (Item v) = Some ''AttributeError''"
| "strict_raises _ = None"

definition strict :: "(string, real) library" where
  "strict = one_by_one\<lparr>shape0 := (\<lambda>x. Inr 0), raises := strict_raises\<rparr>"

definition observing :: "(string, real) runtime" where
  "observing = sunny_day\<lparr>conditioning := [''cloudy'' \<mapsto> 1, ''weight'' \<mapsto> 9]\<rparr>"

definition zero_scale :: "(string, real) pstate" where
  "zero_scale = \<lparr>store = [''a'' \<mapsto> 12, ''b'' \<mapsto> 0], trace = []\<rparr>"

definition example_bnn :: "real BNN" where
  "example_bnn =
     \<lparr>bnn_fc1 = \<lparr>weight_prior = ToEvent (Expand (Normal 0 1) [512, 784]) 2,
                  bias_prior = ToEvent (Expand (Normal 0 1) [512]) 1\<rparr>,
      bnn_fc2 = \<lparr>weight_prior = ToEvent (Expand (Normal 0 1) [10, 512]) 2,
                  bias_prior = ToEvent (Expand (Normal 0 1) [10]) 1\<rparr>,
      bnn_log_softmax_dim = 1\<rparr>"

section \<open>The cells that use the parameter store\<close>

text \<open>
  \<^verbatim>\<open>
  a = pyro.param("new_param", torch.tensor(1.))
  print(a, a.requires_grad)
  \<close>
  and, two cells later,
  \<^verbatim>\<open>
  a = pyro.param("new_param", torch.tensor(10.))# value of 10. is ignored (!)
  print(a, a.requires_grad)
  pyro.clear_param_store()
  a = pyro.param("new_param", torch.tensor(10.))
  print(a, a.requires_grad)
  \<close>
  Each cell returns the values it prints.
\<close>

definition new_param_cell :: "('e, real, real) py" where
  "new_param_cell = pyro_param ''new_param'' 1"

definition more_on_param_cell :: "('e, real, real \<times> real) py" where
  "more_on_param_cell =
     bind_py (pyro_param ''new_param'' 10) (\<lambda>a1.
     bind_py pyro_clear_param_store (\<lambda>_.
     bind_py (pyro_param ''new_param'' 10) (\<lambda>a2.
     return_py (a1, a2))))"

section \<open>The analytical posterior\<close>

text \<open>
  \<^verbatim>\<open>
  print("loc = ", (0.75**2 * 10 + 14.) / (1 + 0.75**2))
  print("scale = ", np.sqrt(0.75**2/(1 + 0.75**2)))
  \<close>
  The two expressions, in exact arithmetic.
\<close>

definition posterior_loc :: rat where
  "posterior_loc = ((3 / 4)\<^sup>2 * 10 + 14) / (1 + (3 / 4)\<^sup>2)"

definition posterior_variance :: rat where
  "posterior_variance = (3 / 4)\<^sup>2 / (1 + (3 / 4)\<^sup>2)"

definition posterior_scale :: real where
  "posterior_scale = sqrt (real_of_rat posterior_variance)"

section \<open>The source text of the functions and of the exercise cells\<close>

text \<open>
  Each definition below is a piece of a notebook, line by line as the notebook has it: first
  the user-defined functions and classes (from the \<open>def\<close> or \<open>class\<close> line to the last line of
  the body), then the code cells that follow the exercise tasks.
\<close>

definition weather_src :: "string list" where
  \<open>weather_src =
    [''def weather():'',
     ''    "Our Pyro model of the weather"'',
     ''    '',
     ''    # define cloudy as a random variable with a Bernoulli prior distribution'',
     ''    cloudy = pyro.sample('cloudy', dist.Bernoulli(0.3))'',
     ''    '',
     ''    # define temperature as a random variable, through its conditional distribution with cloudy'',
     ''    weather_type = 'cloudy' if cloudy.item() == 1.0 else 'sunny'' @ [CHR 0x27],
     ''    loc = {'cloudy': 55.0, 'sunny': 75.0}[weather_type]'',
     ''    scale = {'cloudy': 10.0, 'sunny': 15.0}[weather_type]'',
     ''    temperature = pyro.sample('temperature', dist.Normal(loc, scale))'',
     ''    '',
     ''    return weather_type, temperature'']\<close>

definition ice_cream_sales_src :: "string list" where
  \<open>ice_cream_sales_src =
    [''def ice_cream_sales():'',
     ''    "Another Pyro model"'',
     ''    '',
     ''    # define ice_cream as a random variable, through its conditional distribution with cloudy and temperature'',
     ''    weather_type, temperature = weather()'',
     ''    expected_sales = 200. if weather_type == 'sunny' and temperature > 80.0 else 50.'',
     ''    ice_cream = pyro.sample('ice_cream', pyro.distributions.Normal(expected_sales, 10.0))# number of ice cream sales'',
     ''    return weather_type, ice_cream'']\<close>

definition scale_src :: "string list" where
  \<open>scale_src =
    [''def scale():'',
     ''    weight = pyro.sample("weight", dist.Normal(10, 1.0))'',
     ''    measurement = pyro.sample("measurement", dist.Normal(weight, 0.75))'',
     ''    return measurement'']\<close>

definition guide_src :: "string list" where
  \<open>guide_src =
    [''def guide():'',
     ''    "Defines an approximate distribution Q we will fit to the posterior"'',
     ''    '',
     ''    # here, we define Q as a normal distribution, with flexible (trainable) parameters a and b'',
     ''    a = pyro.param("a", torch.tensor(1.))'',
     ''    b = pyro.param("b", torch.tensor(1.))'',
     ''    return pyro.sample("weight", dist.Normal(a, torch.abs(b)))'']\<close>

definition NN_src :: "string list" where
  \<open>NN_src =
    [''class NN(torch.nn.Module):'',
     ''    '',
     ''    def __init__(self, input_size, hidden_size, output_size):'',
     ''        super().__init__()'',
     ''        self.fc1 = torch.nn.Linear(input_size, hidden_size)'',
     ''        self.fc2 = torch.nn.Linear(hidden_size, output_size)'',
     ''        self.relu = torch.nn.ReLU()'',
     ''        self.log_softmax = torch.nn.LogSoftmax(dim=1)'',
     ''        '',
     ''    def forward(self, x):'',
     ''        x = x.view(-1, 28*28)'',
     ''        x = self.relu(self.fc1(x))'',
     ''        x = self.fc2(x)'',
     ''        x = self.log_softmax(x)# output (log) softmax probabilities of each class'',
     ''        return x'']\<close>

definition BNN_src :: "string list" where
  \<open>BNN_src =
    [''class BNN(pyro.nn.PyroModule):'',
     ''    '',
     ''    def __init__(self, input_size, hidden_size, output_size):'',
     ''        super().__init__()'',
     ''        '',
     ''        self.fc1 = PyroLinear(input_size, hidden_size)'',
     ''        self.fc1.weight = pyro.nn.PyroSample(dist.Normal(0., 1.).expand([hidden_size, input_size]).to_event(2))'',
     ''        self.fc1.bias   = pyro.nn.PyroSample(dist.Normal(0., 1.).expand([hidden_size]).to_event(1))'',
     ''        '',
     ''        self.fc2 = PyroLinear(hidden_size, output_size)'',
     ''        self.fc2.weight = pyro.nn.PyroSample(dist.Normal(0., 1.).expand([output_size, hidden_size]).to_event(2))'',
     ''        self.fc2.bias   = pyro.nn.PyroSample(dist.Normal(0., 1.).expand([output_size]).to_event(1))'',
     ''        '',
     ''        self.relu = torch.nn.ReLU()'',
     ''        self.log_softmax = torch.nn.LogSoftmax(dim=1)'',
     '''',
     ''    def forward(self, x, y=None):'',
     ''        x = x.view(-1, 28*28)'',
     ''        x = self.relu(self.fc1(x))'',
     ''        x = self.fc2(x)'',
     ''        x = self.log_softmax(x)# output (log) softmax probabilities of each class'',
     ''        '',
     ''        with pyro.plate("data", x.shape[0]):'',
     ''            obs = pyro.sample("obs", dist.Categorical(logits=x), obs=y)'']\<close>

definition bnn_guide_src :: "string list" where
  \<open>bnn_guide_src =
    [''def guide(x, y=None):'',
     ''    '',
     ''    ## TODO: write some code here'',
     ''    '']\<close>

definition intro_task1_cell :: "string list" where
  \<open>intro_task1_cell =
    [''import matplotlib.pyplot as plt'',
     '''',
     ''## TODO: write some code here'',
     '''']\<close>

definition intro_task2_cell :: "string list" where
  \<open>intro_task2_cell =
    [''posterior = sampler.get_samples()'',
     ''print(type(posterior))# note, this is just a python dictionary!'',
     '''',
     ''## TODO: write some code here'',
     '''']\<close>

definition intro_extension_cell :: "string list" where
  \<open>intro_extension_cell =
    [''import numpy as np'',
     ''print("True analytical posterior parameters:")'',
     ''print("loc = ", (0.75**2 * 10 + 14.) / (1 + 0.75**2))'',
     ''print("scale = ", np.sqrt(0.75**2/(1 + 0.75**2)))'']\<close>

definition intro_task3_4_cell :: "string list" where
  \<open>intro_task3_4_cell =
    [''## TODO: write some code here'',
     '''']\<close>

definition bnn_task1_cell :: "string list" where
  \<open>bnn_task1_cell =
    [''## TODO: write some code here'',
     '''']\<close>

definition bnn_task2_3_cell :: "string list" where
  \<open>bnn_task2_3_cell =
    [''loss_function = torch.nn.NLLLoss()# negative log likelihood loss'',
     ''optimizer = torch.optim.Adam(nn.parameters(), lr=0.01)'',
     ''num_epochs = 5'',
     '''',
     ''## TODO: write some code here'',
     '''']\<close>

definition bnn_task4_cell :: "string list" where
  \<open>bnn_task4_cell =
    [''## TODO: write some code here'',
     '''']\<close>

definition bnn_task6_cell :: "string list" where
  \<open>bnn_task6_cell =
    [''pyro.clear_param_store()'',
     ''svi = SVI(model=bnn, '',
     ''          guide=guide, '',
     ''          optim=Adam({"lr": 1e-2}), '',
     ''          loss=Trace_ELBO(num_particles=1))'',
     ''num_epochs = 5'',
     '''',
     ''## TODO: write some code here'',
     '''']\<close>

definition bnn_task7_cell :: "string list" where
  \<open>bnn_task7_cell =
    [''## TODO: write some code here'',
     '''']\<close>

definition bnn_task8_cell :: "string list" where
  \<open>bnn_task8_cell =
    [''## TODO: write some code here'',
     '''']\<close>

definition bnn_extension_cell :: "string list" where
  \<open>bnn_extension_cell =
    []\<close>


text \<open>
  A line is blank when it holds only spaces, and a comment line when its first character
  after the indentation is \<open>#\<close>. The lines of code of a piece of source are the others.
\<close>

definition strip_indent :: "string \<Rightarrow> string" where
  "strip_indent l = dropWhile (\<lambda>c. c = CHR '' '') l"

definition indent :: "string \<Rightarrow> nat" where
  "indent l = length (takeWhile (\<lambda>c. c = CHR '' '') l)"

definition blank :: "string \<Rightarrow> bool" where
  "blank l = (strip_indent l = [])"

definition comment_only :: "string \<Rightarrow> bool" where
  "comment_only l = (case strip_indent l of [] \<Rightarrow> False | c # _ \<Rightarrow> c = CHR ''#'')"

definition code_lines :: "string list \<Rightarrow> string list" where
  "code_lines src = filter (\<lambda>l. \<not> blank l \<and> \<not> comment_only l) src"

definition lines_of_code :: "string list \<Rightarrow> nat" where
  "lines_of_code src = length (code_lines src)"

text \<open>The comment that marks an exercise left to the student.\<close>

definition todo_comment :: "string \<Rightarrow> bool" where
  "todo_comment l = (strip_indent l = ''## TODO: write some code here'')"

definition has_todo :: "string list \<Rightarrow> bool" where
  "has_todo cell = list_ex todo_comment cell"

definition todo_only :: "string list \<Rightarrow> bool" where
  "todo_only cell = (has_todo cell \<and> list_all (\<lambda>l. blank l \<or> todo_comment l) cell)"

text \<open>
  The exercise tasks of the two notebooks, in the order of the notebooks, each with the code
  cell that follows it. Tasks 3 and 4 of the first notebook share a cell, as do tasks 2 and 3
  of the second; task 5 of the second is the \<open>guide\<close> function.
\<close>

datatype notebook = Intro | Bnn

definition exercises :: "(notebook \<times> string \<times> string list) list" where
  "exercises =
    [(Intro, ''Task 1'', intro_task1_cell),
     (Intro, ''Task 2'', intro_task2_cell),
     (Intro, ''Extension Task 1'', intro_extension_cell),
     (Intro, ''Task 3'', intro_task3_4_cell),
     (Intro, ''Task 4'', intro_task3_4_cell),
     (Bnn, ''Task 1'', bnn_task1_cell),
     (Bnn, ''Task 2'', bnn_task2_3_cell),
     (Bnn, ''Task 3'', bnn_task2_3_cell),
     (Bnn, ''Task 4'', bnn_task4_cell),
     (Bnn, ''Task 5'', bnn_guide_src),
     (Bnn, ''Task 6'', bnn_task6_cell),
     (Bnn, ''Task 7'', bnn_task7_cell),
     (Bnn, ''Task 8'', bnn_task8_cell),
     (Bnn, ''Extension Task 1'', bnn_extension_cell)]"

definition cell_of :: "notebook \<times> string \<times> string list \<Rightarrow> string list" where
  "cell_of ex = snd (snd ex)"

text \<open>
  Python accepts a \<open>def\<close> only when its header is followed by an indented block holding at
  least one statement; blank lines and comment lines are not statements. A function
  definition given as its lines is therefore either rejected (\<open>IndentationError\<close>, a syntax
  error raised before anything runs, so that no function is bound) or yields the lines of
  its body.
\<close>

datatype syntax_error = IndentationError

definition def_statement :: "string list \<Rightarrow> syntax_error + string list" where
  "def_statement src =
     (case code_lines src of
        [] \<Rightarrow> Inr []
      | header # rest \<Rightarrow>
          (case rest of
             [] \<Rightarrow> Inl IndentationError
           | first # _ \<Rightarrow>
               if indent header < indent first
               then Inr (takeWhile (\<lambda>l. indent header < indent l) rest)
               else Inl IndentationError))"

section \<open>What the notebooks read and write\<close>

text \<open>
  The world outside a notebook is the files under its directory; what a notebook consumes
  and produces is the list of its input and output events.
\<close>

datatype io_event = ReadFile string | Download string | Print | ShowPlot

datatype io_error = FileNotFoundError string | DatasetNotFound string

record world =
  files :: "string list"
  io :: "io_event list"

type_synonym cell = "world \<Rightarrow> io_error + world"

fun run_cells :: "cell list \<Rightarrow> cell" where
  "run_cells [] w = Inr w"
| "run_cells (c # cs) w = (case c w of Inl e \<Rightarrow> Inl e | Inr w' \<Rightarrow> run_cells cs w')"

definition print_out :: cell where
  "print_out w = Inr (w\<lparr>io := io w @ [Print]\<rparr>)"

definition plt_show :: cell where
  "plt_show w = Inr (w\<lparr>io := io w @ [ShowPlot]\<rparr>)"

definition Image_open :: "string \<Rightarrow> cell" where
  "Image_open path w =
     (if path \<in> set (files w) then Inr (w\<lparr>io := io w @ [ReadFile path]\<rparr>)
      else Inl (FileNotFoundError path))"

text \<open>
  Modelled from the spec: \<open>torchvision.datasets.MNIST\<close> is a function of an external library.
  The notebook says of its cell "Below we download the MNIST dataset": with
  \<open>download=True\<close> the data set is fetched from the network into the root directory when it
  is not there yet, and read from there.
\<close>

definition datasets_MNIST :: "string \<Rightarrow> bool \<Rightarrow> bool \<Rightarrow> cell" where
  "datasets_MNIST dir train download w =
     (let p = dir @ ''/MNIST'' in
      if p \<in> set (files w) then Inr (w\<lparr>io := io w @ [ReadFile p]\<rparr>)
      else if download
      then Inr (w\<lparr>files := p # files w, io := io w @ [Download p, ReadFile p]\<rparr>)
      else Inl (DatasetNotFound p))"

text \<open>
  \<^verbatim>\<open>
  train_dataset = datasets.MNIST('./data', train=True, download=True, transform=...)
  test_dataset = datasets.MNIST('./data', train=False, download=True, transform=...)
  \<close>
\<close>

definition load_data_cell :: cell where
  "load_data_cell =
     run_cells [datasets_MNIST ''./data'' True True, datasets_MNIST ''./data'' False True]"

text \<open>
  \<^verbatim>\<open>
  letters = ["a","b","c","d","e","f","g","h","i","j"]
  x_letters = np.array([np.array(Image.open("data/not-mnist/%s.png"%(l)))
                           for l in letters]).astype(np.float32)
  ...
  plt.figure(figsize=(14,3))
  for iplot,i in enumerate([0,1,2,3]):
      ...
  plt.show()
  \<close>
\<close>

definition letters :: "string list" where
  "letters = [''a'', ''b'', ''c'', ''d'', ''e'', ''f'', ''g'', ''h'', ''i'', ''j'']"

definition letter_path :: "string \<Rightarrow> string" where
  "letter_path l = ''data/not-mnist/'' @ l @ ''.png''"

definition letters_cell :: cell where
  "letters_cell = run_cells (map (\<lambda>l. Image_open (letter_path l)) letters @ [plt_show])"

text \<open>
  The second notebook: of its code cells only these two read or write anything (the others
  import modules, define the two classes and build the objects, or are left to the student).
\<close>

definition bnn_notebook :: cell where
  "bnn_notebook = run_cells [load_data_cell, letters_cell]"

text \<open>
  The first notebook reads nothing; its cells print: a sample, a named sample, three
  weather reports, one sale, one measurement, the summary of the sampler, the type of the
  posterior, a parameter, the three lines of the analytical posterior, the parameter twice
  more, and the two trained parameters.
\<close>

definition intro_notebook :: cell where
  "intro_notebook =
     run_cells (concat
       [[print_out], [print_out], replicate 3 print_out, [print_out], [print_out],
        [print_out], [print_out], [print_out], replicate 3 print_out,
        replicate 2 print_out, replicate 2 print_out])"

text \<open>A checkout of the repository holds the ten letter images and no MNIST data.\<close>

definition checkout :: world where
  "checkout = \<lparr>files = map letter_path letters, io = []\<rparr>"

text \<open>The same directory once the MNIST data has been fetched.\<close>

definition with_mnist :: world where
  "with_mnist = \<lparr>files = ''./data/MNIST'' # map letter_path letters, io = []\<rparr>"

fun is_input :: "io_event \<Rightarrow> bool" where
  "is_input (ReadFile _) = True"
| "is_input (Download _) = True"
| "is_input _ = False"

definition inputs :: "world \<Rightarrow> io_event list" where
  "inputs w = filter is_input (io w)"

definition outputs :: "world \<Rightarrow> io_event list" where
  "outputs w = filter (\<lambda>ev. \<not> is_input ev) (io w)"

section \<open>Properties of the models\<close>


lemma bind_py_return [simp]: "bind_py (return_py x) f = f x"
  by (simp add: bind_py_def return_py_def)

lemma bind_py_raise [simp]: "bind_py (raise_py e) f = raise_py e"
  by (simp add: bind_py_def raise_py_def)

lemma bind_py_assoc: "bind_py (bind_py m f) g = bind_py m (\<lambda>x. bind_py (f x) g)"
  by (auto simp: bind_py_def fun_eq_iff split: prod.splits sum.splits)

lemma dict_get_two:
  "dict_get [(''cloudy'', a), (''sunny'', b)] (if c then ''cloudy'' else ''sunny'')
     = return_py (if c then a else b)"
  by (simp add: dict_get_def)

lemma weather_eq_spec: "weather R = weather_spec R"
proof -
  have "\<And>c. (let weather_type = (if c then ''cloudy'' else ''sunny'') in
     bind_py (dict_get [(''cloudy'', 55), (''sunny'', 75)] weather_type) (\<lambda>loc.
     bind_py (dict_get [(''cloudy'', 10), (''sunny'', 15)] weather_type) (\<lambda>scale.
     bind_py (pyro_sample R ''temperature'' (Normal loc scale) None) (\<lambda>temperature.
     return_py (weather_type, temperature)))))
   = (if c
     then bind_py (pyro_sample R ''temperature'' (Normal 55 10) None) (\<lambda>temperature.
          return_py (''cloudy'', temperature))
     else bind_py (pyro_sample R ''temperature'' (Normal 75 15) None) (\<lambda>temperature.
          return_py (''sunny'', temperature)))"
    by (simp add: dict_get_two Let_def)
  then show ?thesis
    unfolding weather_def weather_spec_def by simp
qed

lemma pyro_sample_cases:
  "pyro_sample R name d obs s =
     (case obs of
        Some v \<Rightarrow> (Inr v, s\<lparr>trace := trace s @ [SampleSite name d v True]\<rparr>)
      | None \<Rightarrow>
          (case conditioning R name of
             Some v \<Rightarrow> (Inr v, s\<lparr>trace := trace s @ [SampleSite name d v True]\<rparr>)
           | None \<Rightarrow>
               (case draw R name d of
                  Inl e \<Rightarrow> (Inl (LibraryError e), s\<lparr>trace := trace s @ [LibraryRaised e]\<rparr>)
                | Inr v \<Rightarrow> (Inr v, s\<lparr>trace := trace s @ [SampleSite name d v False]\<rparr>))))"
  by (simp add: pyro_sample_def bind_py_def emit_def return_py_def raise_py_def library_call_def
      split: option.splits sum.splits)

lemma library_call_cases:
  "library_call r s =
     (case r of Inl e \<Rightarrow> (Inl (LibraryError e), s\<lparr>trace := trace s @ [LibraryRaised e]\<rparr>)
              | Inr x \<Rightarrow> (Inr x, s))"
  by (simp add: bind_py_def emit_def return_py_def raise_py_def library_call_def
      split: sum.splits)

lemma raised_append [simp]: "raised (xs @ ys) = raised xs @ raised ys"
  by (induction xs rule: raised.induct) simp_all

lemma branches_append [simp]: "branches (xs @ ys) = branches xs + branches ys"
  by (simp add: branches_def)

lemma branches_Nil [simp]: "branches [] = 0"
  by (simp add: branches_def)

lemma raised_Cons_nonempty: "raised xs = e # es \<Longrightarrow> xs \<noteq> []"
  by auto

lemma propagates_return: "propagates (return_py x)"
  by (simp add: propagates_def return_py_def)

lemma propagates_bind:
  assumes "propagates m" and "\<And>x. propagates (f x)"
  shows "propagates (bind_py m f)"
  unfolding propagates_def
proof
  fix s
  from assms(1) obtain new where m: "trace (snd (m s)) = trace s @ new"
    "(case fst (m s) of
           Inl x \<Rightarrow> \<exists>e. x = LibraryError e \<and> raised new = [e] \<and> last new = LibraryRaised e
         | Inr _ \<Rightarrow> raised new = [])"
    unfolding propagates_def by blast
  show "\<exists>new. trace (snd (bind_py m f s)) = trace s @ new \<and>
        (case fst (bind_py m f s) of
           Inl x \<Rightarrow> \<exists>e. x = LibraryError e \<and> raised new = [e] \<and> last new = LibraryRaised e
         | Inr _ \<Rightarrow> raised new = [])"
  proof (cases "m s")
    case (Pair res s')
    show ?thesis
    proof (cases res)
      case (Inl x)
      with Pair m show ?thesis by (auto simp: bind_py_def)
    next
      case (Inr y)
      from assms(2)[of y] obtain new' where f: "trace (snd (f y s')) = trace s' @ new'"
        "(case fst (f y s') of
           Inl x \<Rightarrow> \<exists>e. x = LibraryError e \<and> raised new' = [e] \<and> last new' = LibraryRaised e
         | Inr _ \<Rightarrow> raised new' = [])"
        unfolding propagates_def by blast
      from Pair Inr m have r: "raised new = []" "trace s' = trace s @ new" by auto
      have "trace (snd (bind_py m f s)) = trace s @ (new @ new')"
        using Pair Inr f(1) r by (simp add: bind_py_def)
      moreover have "(case fst (bind_py m f s) of
           Inl x \<Rightarrow> \<exists>e. x = LibraryError e \<and> raised (new @ new') = [e] \<and> last (new @ new') = LibraryRaised e
         | Inr _ \<Rightarrow> raised (new @ new') = [])"
        using Pair Inr f(2) r
        by (auto simp: bind_py_def last_append dest: raised_Cons_nonempty split: sum.splits)
      ultimately show ?thesis by blast
    qed
  qed
qed

lemma propagates_library_call: "propagates (library_call r)"
  by (auto simp: propagates_def library_call_cases split: sum.splits)

lemma propagates_emit: "(\<And>e. ev \<noteq> LibraryRaised e) \<Longrightarrow> propagates (emit ev)"
  by (cases ev) (auto simp: propagates_def emit_def)

lemma propagates_pyro_sample: "propagates (pyro_sample R name d obs)"
  by (auto simp: propagates_def pyro_sample_cases split: sum.splits option.splits)

lemma propagates_branch: "propagates (branch c)"
  by (simp add: branch_def propagates_bind propagates_emit propagates_return)

lemma propagates_pyro_param: "propagates (pyro_param name init)"
  by (auto simp: propagates_def pyro_param_def split: option.splits)

lemma propagates_call: "propagates (call T c)"
  by (simp add: call_def propagates_library_call)

lemma propagates_pyro_sample_statement: "propagates (pyro_sample_statement T R name d obs)"
  unfolding pyro_sample_statement_def
  by (intro propagates_bind propagates_call propagates_pyro_sample)

lemma propagates_pyro_sample_call: "propagates (pyro_sample_call T R name d obs)"
  unfolding pyro_sample_call_def
  by (intro propagates_bind propagates_call propagates_pyro_sample_statement)

lemma propagates_pyro_param_call: "propagates (pyro_param_call T name r)"
  unfolding pyro_param_call_def
  by (intro propagates_bind propagates_call propagates_pyro_param)

lemma propagates_PyroSample: "propagates (PyroSample T shape n)"
  unfolding PyroSample_def
  by (intro propagates_bind propagates_call propagates_return)

lemmas propagates_intros = propagates_bind propagates_return propagates_library_call
  propagates_pyro_sample propagates_branch propagates_pyro_param propagates_call
  propagates_pyro_sample_statement propagates_pyro_sample_call propagates_pyro_param_call
  propagates_PyroSample

lemma propagates_weather: "propagates (weather R)"
  unfolding weather_eq_spec weather_spec_def
  by (intro propagates_intros) (auto intro!: propagates_intros)

lemma propagates_ice: "propagates (ice_cream_sales R)"
  unfolding ice_cream_sales_def Let_def
  by (intro propagates_intros propagates_weather) (auto intro!: propagates_intros)

lemma propagates_scale: "propagates (scale R)"
  unfolding scale_def by (intro propagates_intros)

lemma propagates_scale_obs: "propagates (scale_obs R)"
  unfolding scale_obs_def by (intro propagates_intros)

lemma propagates_guide: "propagates (guide R)"
  unfolding guide_def by (intro propagates_intros)

lemma propagates_NN_forward: "propagates (NN_forward T self x)"
  unfolding NN_forward_def by (intro propagates_intros)

lemma propagates_NN_init: "propagates (NN_init T i h out)"
  unfolding NN_init_def by (intro propagates_intros)

lemma propagates_BNN_init: "propagates (BNN_init T i h out)"
  unfolding BNN_init_def by (intro propagates_intros)

lemma propagates_pyro_plate: "propagates body \<Longrightarrow> propagates (pyro_plate T name n body)"
  unfolding pyro_plate_def by (intro propagates_intros propagates_emit) auto

lemma propagates_BNN_forward: "propagates (BNN_forward R T self x y)"
  unfolding BNN_forward_def by (intro propagates_intros propagates_pyro_plate)

lemma propagates_weather_calls: "propagates (weather_calls T R)"
proof -
  have tail: "(let weather_type = (if c then ''cloudy'' else ''sunny'') in
     bind_py (dict_get [(''cloudy'', 55), (''sunny'', 75)] weather_type) (\<lambda>loc.
     bind_py (dict_get [(''cloudy'', 10), (''sunny'', 15)] weather_type) (\<lambda>scale.
     bind_py (pyro_sample_call T R ''temperature'' (Normal loc scale) None) (\<lambda>temperature.
     return_py (weather_type, temperature)))))
   = (if c
     then bind_py (pyro_sample_call T R ''temperature'' (Normal 55 10) None) (\<lambda>temperature.
          return_py (''cloudy'', temperature))
     else bind_py (pyro_sample_call T R ''temperature'' (Normal 75 15) None) (\<lambda>temperature.
          return_py (''sunny'', temperature)))" for c
    by (simp add: dict_get_two Let_def)
  show ?thesis
    unfolding weather_calls_def tail
    by (intro propagates_intros) (auto intro!: propagates_intros)
qed

lemma propagates_ice_cream_sales_calls: "propagates (ice_cream_sales_calls T R)"
  unfolding ice_cream_sales_calls_def Let_def
  by (intro propagates_intros propagates_weather_calls)
     (auto intro!: propagates_intros)

lemma propagates_scale_calls: "propagates (scale_calls T R)"
  unfolding scale_calls_def by (intro propagates_intros)

lemma propagates_scale_obs_calls: "propagates (scale_obs_calls T R)"
  unfolding scale_obs_calls_def by (intro propagates_intros)

lemma propagates_conditioned_scale_calls: "propagates (conditioned_scale_calls T R)"
  unfolding conditioned_scale_calls_def pyro_condition_def
  by (intro propagates_intros propagates_scale_calls)

lemma propagates_guide_calls: "propagates (guide_calls T R)"
  unfolding guide_calls_def by (intro propagates_intros)

text \<open>With a library in which no call raises, the functions written call by call are the models.\<close>

lemma call_never_raises: "raises T c = None \<Longrightarrow> call T c = return_py ()"
  by (simp add: call_def library_call_def)

lemma weather_calls_never_raises:
  "raises T = (\<lambda>c. None) \<Longrightarrow> weather_calls T R = weather R"
  by (simp add: weather_calls_def weather_def pyro_sample_call_def pyro_sample_statement_def
      call_never_raises)

lemma ice_cream_sales_calls_never_raises:
  "raises T = (\<lambda>c. None) \<Longrightarrow> ice_cream_sales_calls T R = ice_cream_sales R"
  by (simp add: ice_cream_sales_calls_def ice_cream_sales_def weather_calls_never_raises
      pyro_sample_call_def pyro_sample_statement_def call_never_raises cong: if_cong)

lemma scale_calls_never_raises:
  "raises T = (\<lambda>c. None) \<Longrightarrow> scale_calls T R = scale R"
  by (simp add: scale_calls_def scale_def pyro_sample_call_def pyro_sample_statement_def
      call_never_raises)

lemma scale_obs_calls_never_raises:
  "raises T = (\<lambda>c. None) \<Longrightarrow> scale_obs_calls T R = scale_obs R"
  by (simp add: scale_obs_calls_def scale_obs_def pyro_sample_call_def pyro_sample_statement_def
      call_never_raises)

lemma bind_py_return_right: "bind_py m (\<lambda>x. return_py x) = m"
  by (auto simp: bind_py_def return_py_def fun_eq_iff split: prod.splits sum.splits)

lemma conditioned_scale_calls_never_raises:
  "raises T = (\<lambda>c. None) \<Longrightarrow> conditioned_scale_calls T R = conditioned_scale R"
  by (simp add: conditioned_scale_calls_def conditioned_scale_def pyro_condition_def
      scale_calls_never_raises call_never_raises bind_py_return_right)

lemma guide_calls_never_raises:
  "raises T = (\<lambda>c. None) \<Longrightarrow> guide_calls T R = guide R"
  by (simp add: guide_calls_def guide_def pyro_param_call_def pyro_sample_call_def
      pyro_sample_statement_def call_never_raises)


lemma takes_branches_return: "takes_branches 0 (return_py x)"
  by (simp add: takes_branches_def return_py_def)

lemma takes_branches_bind:
  assumes "takes_branches a m" and "\<And>x. takes_branches b (f x)"
  shows "takes_branches (a + b) (bind_py m f)"
  unfolding takes_branches_def
proof
  fix s
  from assms(1) obtain new where m: "trace (snd (m s)) = trace s @ new" "branches new \<le> a"
    "(case fst (m s) of Inl _ \<Rightarrow> True | Inr _ \<Rightarrow> branches new = a)"
    unfolding takes_branches_def by blast
  show "\<exists>new. trace (snd (bind_py m f s)) = trace s @ new \<and> branches new \<le> a + b \<and>
        (case fst (bind_py m f s) of Inl _ \<Rightarrow> True | Inr _ \<Rightarrow> branches new = a + b)"
  proof (cases "m s")
    case (Pair res s')
    show ?thesis
    proof (cases res)
      case (Inl x)
      with Pair m show ?thesis by (auto simp: bind_py_def)
    next
      case (Inr y)
      from assms(2)[of y] obtain new' where f: "trace (snd (f y s')) = trace s' @ new'"
        "branches new' \<le> b"
        "(case fst (f y s') of Inl _ \<Rightarrow> True | Inr _ \<Rightarrow> branches new' = b)"
        unfolding takes_branches_def by blast
      from Pair Inr m have r: "branches new = a" "trace s' = trace s @ new" by auto
      have "trace (snd (bind_py m f s)) = trace s @ (new @ new')"
        using Pair Inr f(1) r by (simp add: bind_py_def)
      moreover have "branches (new @ new') \<le> a + b" using r f(2) by simp
      moreover have "(case fst (bind_py m f s) of Inl _ \<Rightarrow> True
           | Inr _ \<Rightarrow> branches (new @ new') = a + b)"
        using Pair Inr f(3) r by (auto simp: bind_py_def split: sum.splits)
      ultimately show ?thesis by blast
    qed
  qed
qed

lemma takes_branches_bind0:
  "takes_branches 0 m \<Longrightarrow> (\<And>x. takes_branches n (f x)) \<Longrightarrow> takes_branches n (bind_py m f)"
  using takes_branches_bind [of 0 m n f] by simp

lemma takes_branches_library_call: "takes_branches 0 (library_call r)"
  by (auto simp: takes_branches_def library_call_cases branches_def split: sum.splits)

lemma takes_branches_pyro_sample: "takes_branches 0 (pyro_sample R name d obs)"
  by (auto simp: takes_branches_def pyro_sample_cases branches_def split: sum.splits option.splits)

lemma takes_branches_pyro_param: "takes_branches 0 (pyro_param name init)"
  by (auto simp: takes_branches_def pyro_param_def split: option.splits)

lemma takes_branches_branch: "takes_branches 1 (branch c)"
  by (simp add: takes_branches_def branch_def bind_py_def emit_def return_py_def branches_def)

lemma takes_branches_call: "takes_branches 0 (call T c)"
  by (simp add: call_def takes_branches_library_call)

lemma takes_branches_pyro_sample_statement:
  "takes_branches 0 (pyro_sample_statement T R name d obs)"
  unfolding pyro_sample_statement_def
  by (intro takes_branches_bind0 takes_branches_call takes_branches_pyro_sample)

lemma takes_branches_pyro_sample_call: "takes_branches 0 (pyro_sample_call T R name d obs)"
  unfolding pyro_sample_call_def
  by (intro takes_branches_bind0 takes_branches_call takes_branches_pyro_sample_statement)

lemma takes_branches_PyroSample: "takes_branches 0 (PyroSample T shape n)"
  unfolding PyroSample_def
  by (intro takes_branches_bind0 takes_branches_call takes_branches_return)

lemma takes_branches_bind_then0:
  assumes "takes_branches n m" and "\<And>x. takes_branches 0 (f x)"
  shows "takes_branches n (bind_py m f)"
  using takes_branches_bind [OF assms] by simp

lemma takes_branches_emit_plate: "takes_branches 0 (emit (PlateSite name k))"
  by (simp add: takes_branches_def emit_def branches_def)

lemma takes_branches_pyro_plate:
  assumes "takes_branches n body"
  shows "takes_branches n (pyro_plate T name k body)"
  unfolding pyro_plate_def
  by (intro takes_branches_bind0 takes_branches_call takes_branches_emit_plate
      takes_branches_bind_then0 [OF assms] takes_branches_return)

lemmas takes_branches_intros = takes_branches_bind0 takes_branches_return
  takes_branches_library_call takes_branches_pyro_sample takes_branches_pyro_param
  takes_branches_call takes_branches_pyro_sample_statement takes_branches_pyro_sample_call
  takes_branches_PyroSample

lemma takes_branches_after_branch:
  assumes "\<And>x. takes_branches 0 (f x)"
  shows "takes_branches 1 (bind_py (branch c) f)"
proof -
  have "takes_branches (1 + 0) (bind_py (branch c) f)"
    by (rule takes_branches_bind [OF takes_branches_branch assms])
  then show ?thesis by simp
qed

lemma takes_branches_weather: "takes_branches 1 (weather R)"
  unfolding weather_eq_spec weather_spec_def
  by (intro takes_branches_bind0 takes_branches_pyro_sample takes_branches_after_branch)
     (auto intro!: takes_branches_intros)

lemma takes_branches_ice: "takes_branches 2 (ice_cream_sales R)"
proof -
  have "takes_branches (1 + 1) (ice_cream_sales R)"
    unfolding ice_cream_sales_def Let_def
  proof (rule takes_branches_bind [OF takes_branches_weather])
    fix x :: "string \<times> real"
    obtain weather_type temperature where x: "x = (weather_type, temperature)"
      by (cases x)
    show "takes_branches 1
       (case x of (weather_type, temperature) \<Rightarrow>
          bind_py (branch (weather_type = ''sunny'' \<and> 80 < temperature)) (\<lambda>c.
          bind_py (pyro_sample R ''ice_cream'' (Normal (if c then 200 else 50) 10) None)
            (\<lambda>ice_cream. return_py (weather_type, ice_cream))))"
      unfolding x prod.case
      by (rule takes_branches_after_branch) (intro takes_branches_intros)
  qed
  moreover have "(1::nat) + 1 = 2" by simp
  ultimately show ?thesis by metis
qed

lemma takes_branches_scale: "takes_branches 0 (scale R)"
  unfolding scale_def by (intro takes_branches_intros)

lemma takes_branches_scale_obs: "takes_branches 0 (scale_obs R)"
  unfolding scale_obs_def by (intro takes_branches_intros)

lemma takes_branches_guide: "takes_branches 0 (guide R)"
  unfolding guide_def by (intro takes_branches_intros)

lemma takes_branches_NN_forward: "takes_branches 0 (NN_forward T self x)"
  unfolding NN_forward_def by (intro takes_branches_intros)

lemma takes_branches_NN_init: "takes_branches 0 (NN_init T i h out)"
  unfolding NN_init_def by (intro takes_branches_intros)

lemma takes_branches_BNN_init: "takes_branches 0 (BNN_init T i h out)"
  unfolding BNN_init_def by (intro takes_branches_intros)

lemma takes_branches_BNN_forward: "takes_branches 0 (BNN_forward R T self x y)"
  unfolding BNN_forward_def by (intro takes_branches_intros takes_branches_pyro_plate)

lemma conditioned_scale_eq: "conditioned_scale R = scale_obs R"
  by (rule ext)
     (simp add: conditioned_scale_def pyro_condition_def scale_def scale_obs_def bind_py_def
        pyro_sample_cases return_py_def map_add_def split: option.splits sum.splits)

lemma propagates_no_KeyError:
  assumes "propagates m"
  shows "fst (m s) \<noteq> Inl (KeyError k)"
proof -
  from assms have "\<exists>new. trace (snd (m s)) = trace s @ new \<and>
    (case fst (m s) of
       Inl x \<Rightarrow> \<exists>e. x = LibraryError e \<and> raised new = [e] \<and> last new = LibraryRaised e
     | Inr _ \<Rightarrow> raised new = [])"
    unfolding propagates_def by simp
  then show ?thesis by (auto split: sum.splits)
qed

lemma weather_spec_run:
  assumes "conditioning R ''cloudy'' = None" "conditioning R ''temperature'' = None"
    "draw R ''cloudy'' (Bernoulli (3 / 10)) = Inr c"
    "draw R ''temperature'' (if c = 1 then Normal 55 10 else Normal 75 15) = Inr t"
  shows "weather_spec R s =
     (Inr (if c = 1 then ''cloudy'' else ''sunny'', t),
      s\<lparr>trace := trace s @ [SampleSite ''cloudy'' (Bernoulli (3 / 10)) c False, Branch (c = 1),
         SampleSite ''temperature'' (if c = 1 then Normal 55 10 else Normal 75 15) t False]\<rparr>)"
  using assms
  by (cases "c = 1")
     (simp_all add: weather_spec_def bind_py_def pyro_sample_cases branch_def emit_def
        return_py_def)

text \<open>
  Claim C1. Every run of \<open>weather\<close> does what the claim says: it is the computation
  \<open>weather_spec\<close> (draw \<open>cloudy\<close> from Bernoulli(0.3); if it equals 1.0, weather type cloudy
  and temperature from Normal(55, 10), otherwise sunny and Normal(75, 15); return the pair).
  The two dictionary lookups never raise \<open>KeyError\<close>. In a run without conditioning in which
  the two draws give \<open>c\<close> and \<open>t\<close>, the result and the events are as listed.
\<close>

theorem weather_model:
  "weather R = weather_spec R \<and>
   (\<forall>s k. fst (weather R s) \<noteq> Inl (KeyError k)) \<and>
   (conditioning R ''cloudy'' = None \<longrightarrow> conditioning R ''temperature'' = None \<longrightarrow>
    draw R ''cloudy'' (Bernoulli (3 / 10)) = Inr c \<longrightarrow>
    draw R ''temperature'' (if c = 1 then Normal 55 10 else Normal 75 15) = Inr t \<longrightarrow>
    weather R s =
      (Inr (if c = 1 then ''cloudy'' else ''sunny'', t),
       s\<lparr>trace := trace s @ [SampleSite ''cloudy'' (Bernoulli (3 / 10)) c False, Branch (c = 1),
          SampleSite ''temperature'' (if c = 1 then Normal 55 10 else Normal 75 15) t False]\<rparr>))"
proof (intro conjI allI impI)
  show "weather R = weather_spec R" by (rule weather_eq_spec)
next
  fix s k show "fst (weather R s) \<noteq> Inl (KeyError k)"
    by (rule propagates_no_KeyError [OF propagates_weather])
next
  assume "conditioning R ''cloudy'' = None" "conditioning R ''temperature'' = None"
    "draw R ''cloudy'' (Bernoulli (3 / 10)) = Inr c"
    "draw R ''temperature'' (if c = 1 then Normal 55 10 else Normal 75 15) = Inr t"
  then show "weather R s =
      (Inr (if c = 1 then ''cloudy'' else ''sunny'', t),
       s\<lparr>trace := trace s @ [SampleSite ''cloudy'' (Bernoulli (3 / 10)) c False, Branch (c = 1),
          SampleSite ''temperature'' (if c = 1 then Normal 55 10 else Normal 75 15) t False]\<rparr>)"
    unfolding weather_eq_spec by (rule weather_spec_run)
qed

text \<open>A sunny and a cloudy run of \<open>weather\<close>, from the theorem.\<close>

theorem weather_model_witness:
  "weather sunny_day initial =
     (Inr (''sunny'', 85),
      initial\<lparr>trace := [SampleSite ''cloudy'' (Bernoulli (3 / 10)) 0 False, Branch False,
         SampleSite ''temperature'' (Normal 75 15) 85 False]\<rparr>) \<and>
   weather cloudy_day initial =
     (Inr (''cloudy'', 50),
      initial\<lparr>trace := [SampleSite ''cloudy'' (Bernoulli (3 / 10)) 1 False, Branch True,
         SampleSite ''temperature'' (Normal 55 10) 50 False]\<rparr>)"
  using weather_model [of sunny_day 0 85 initial, THEN conjunct2, THEN conjunct2]
    weather_model [of cloudy_day 1 50 initial, THEN conjunct2, THEN conjunct2]
  by (simp add: sunny_day_def cloudy_day_def initial_def)

text \<open>
  Claim C8. \<open>scale_obs\<close> and \<open>conditioned_scale = pyro.condition(scale, {"measurement": 14})\<close>
  are the same computation, under every runtime and from every state; both have the type of
  \<open>scale\<close>. A run draws \<open>weight\<close> from Normal(10, 1), takes the observed value 14 at the
  site \<open>measurement\<close> (distribution Normal(weight, 0.75)) and returns 14.
\<close>

theorem scale_obs_equivalent:
  "conditioned_scale R = scale_obs R \<and>
   (conditioning R ''weight'' = None \<longrightarrow> draw R ''weight'' (Normal 10 1) = Inr w \<longrightarrow>
    scale_obs R s =
      (Inr 14,
       s\<lparr>trace := trace s @ [SampleSite ''weight'' (Normal 10 1) w False,
          SampleSite ''measurement'' (Normal w (3 / 4)) 14 True]\<rparr>))"
  by (simp add: conditioned_scale_eq)
     (simp add: scale_obs_def bind_py_def pyro_sample_cases return_py_def)

text \<open>The two models on a runtime whose draw at \<open>weight\<close> gives 9.\<close>

theorem scale_obs_equivalent_witness:
  "conditioned_scale sunny_day initial =
     (Inr 14,
      initial\<lparr>trace := [SampleSite ''weight'' (Normal 10 1) 9 False,
         SampleSite ''measurement'' (Normal 9 (3 / 4)) 14 True]\<rparr>) \<and>
   scale_obs sunny_day initial = conditioned_scale sunny_day initial"
  using scale_obs_equivalent [of sunny_day 9 initial]
  by (simp add: sunny_day_def initial_def)

lemma guide_run:
  "guide R s = pyro_sample R ''weight'' (Normal (stored_or s ''a'' 1) \<bar>stored_or s ''b'' 1\<bar>) None
      (s\<lparr>store := (store s)(''a'' \<mapsto> stored_or s ''a'' 1, ''b'' \<mapsto> stored_or s ''b'' 1)\<rparr>)"
  by (cases "store s ''a''"; cases "store s ''b''")
     (simp_all add: guide_def bind_py_def pyro_param_def stored_or_def map_upd_triv fun_upd_twist)

text \<open>
  Claim C10. Whatever the parameter store holds for \<open>b\<close>, the sample statement of \<open>guide\<close>
  is given the distribution Normal(a, |b|), with \<open>a\<close> and \<open>b\<close> the values \<open>pyro.param\<close>
  returns; so no scale argument of a normal distribution in the events of the run is
  negative.
\<close>

theorem guide_scale_not_negative:
  "guide R s = pyro_sample R ''weight'' (Normal (stored_or s ''a'' 1) \<bar>stored_or s ''b'' 1\<bar>) None
      (s\<lparr>store := (store s)(''a'' \<mapsto> stored_or s ''a'' 1, ''b'' \<mapsto> stored_or s ''b'' 1)\<rparr>)
   \<and> list_all (\<lambda>sc. 0 \<le> sc) (concat (map normal_scales (new_events s (snd (guide R s)))))"
  by (simp add: guide_run)
     (simp add: pyro_sample_cases new_events_def split: option.splits sum.splits)

text \<open>With \<open>b = -3/5\<close> in the store the scale passed is \<open>3/5\<close>.\<close>

theorem guide_scale_not_negative_witness:
  "guide sunny_day trained =
     (Inr 9, trained\<lparr>trace := [SampleSite ''weight'' (Normal 12 (3 / 5)) 9 False]\<rparr>)"
  using guide_scale_not_negative [of sunny_day trained]
  by (simp add: pyro_sample_cases sunny_day_def trained_def stored_or_def)

text \<open>
  Claim C4. \<open>pyro.param\<close> on a name that is not stored stores the initial value given and
  returns it; on a stored name it returns the stored value and leaves the state as it is,
  whatever initial value is given; after \<open>pyro.clear_param_store()\<close> the store is empty, and
  the next \<open>pyro.param\<close> stores and returns its own initial value.
\<close>

theorem parameter_store:
  "(store s name = None \<longrightarrow>
      pyro_param name v s = (Inr v, s\<lparr>store := (store s)(name \<mapsto> v)\<rparr>)) \<and>
   (store s name = Some w \<longrightarrow> pyro_param name v s = (Inr w, s)) \<and>
   store (snd (pyro_clear_param_store s)) = Map.empty \<and>
   bind_py pyro_clear_param_store (\<lambda>_. pyro_param name v) s
     = (Inr v, s\<lparr>store := [name \<mapsto> v]\<rparr>)"
  by (simp add: pyro_param_def pyro_clear_param_store_def bind_py_def)

text \<open>The two cells of the notebook, run one after the other, print 1, 1 and 10.\<close>

theorem parameter_store_witness:
  "bind_py new_param_cell (\<lambda>a0. bind_py more_on_param_cell (\<lambda>(a1, a2). return_py (a0, a1, a2)))
     initial = (Inr (1, 1, 10), initial\<lparr>store := [''new_param'' \<mapsto> 10]\<rparr>)"
  using parameter_store [of initial "''new_param''" 1 1]
    parameter_store [of "initial\<lparr>store := [''new_param'' \<mapsto> 1]\<rparr>" "''new_param''" 10 1]
  by (simp add: new_param_cell_def more_on_param_cell_def bind_py_def return_py_def initial_def
      pyro_clear_param_store_def)

text \<open>
  Claim C9. In exact arithmetic the printed \<open>loc\<close> is 1256/100 = 12.56, the value under the
  square root is 9/25 = 0.36 and the printed \<open>scale\<close> is 3/5 = 0.6.
\<close>

theorem analytical_posterior:
  "posterior_loc = 1256 / 100 \<and> posterior_variance = 9 / 25 \<and> posterior_scale = 3 / 5"
proof -
  have v: "posterior_variance = 9 / 25"
    by (simp add: posterior_variance_def power2_eq_square)
  have "sqrt (real_of_rat (9 / 25)) = sqrt ((3 / 5)\<^sup>2)"
    by (simp add: power2_eq_square of_rat_divide)
  also have "\<dots> = 3 / 5" by simp
  finally have "posterior_scale = 3 / 5" by (simp add: posterior_scale_def v)
  moreover have "posterior_loc = 1256 / 100"
    by (simp add: posterior_loc_def power2_eq_square)
  ultimately show ?thesis using v by simp
qed


text \<open>
  Claim C3. With every call into the libraries a point where the library may raise (the
  draws, the tensor operations, and each constructor, sample statement, plate, handler,
  parameter and method call), none of the functions and methods of the notebooks catches,
  wraps or suppresses the exception of a library call, and none raises one of its own: a
  run that ends with an exception ends with the very exception a library call raised,
  raised as its last event and the only one raised; a run that returns has seen no library
  call raise.
\<close>

theorem library_exceptions_propagate:
  "propagates (weather_calls T R) \<and> propagates (ice_cream_sales_calls T R) \<and>
   propagates (scale_calls T R) \<and> propagates (scale_obs_calls T R) \<and>
   propagates (conditioned_scale_calls T R) \<and> propagates (guide_calls T R) \<and>
   propagates (NN_init T' i h out) \<and> propagates (NN_forward T' self x) \<and>
   propagates (BNN_init T' i h out) \<and> propagates (BNN_forward R' T' b x y)"
  by (intro conjI propagates_weather_calls propagates_ice_cream_sales_calls
      propagates_scale_calls propagates_scale_obs_calls propagates_conditioned_scale_calls
      propagates_guide_calls propagates_NN_init propagates_NN_forward propagates_BNN_init
      propagates_BNN_forward)

text \<open>
  Exceptions that reach the caller as they are: of a draw inside \<open>scale\<close>; of \<open>.item()\<close> on
  an observed float inside \<open>weather\<close>; of the constructor of the normal distribution inside
  \<open>guide\<close> when \<open>b\<close> is 0, the site being observed; of \<open>view\<close> inside \<open>BNN.forward\<close>; and
  of \<open>pyro.plate\<close> inside \<open>BNN.forward\<close> on an empty batch.
\<close>

theorem library_exceptions_propagate_witness:
  "scale_calls one_by_one broken_scale initial =
     (Inl (LibraryError ''invalid parameters''),
      initial\<lparr>trace := [SampleSite ''weight'' (Normal 10 1) 9 False,
         LibraryRaised ''invalid parameters'']\<rparr>) \<and>
   propagates (scale_calls one_by_one broken_scale) \<and>
   weather_calls strict observing initial =
     (Inl (LibraryError ''AttributeError''),
      initial\<lparr>trace := [SampleSite ''cloudy'' (Bernoulli (3 / 10)) 1 True,
         LibraryRaised ''AttributeError'']\<rparr>) \<and>
   propagates (weather_calls strict observing) \<and>
   guide_calls strict observing zero_scale =
     (Inl (LibraryError ''ValueError''), zero_scale\<lparr>trace := [LibraryRaised ''ValueError'']\<rparr>) \<and>
   propagates (guide_calls strict observing) \<and>
   BNN_forward sunny_day wrong_shape example_bnn 3 None initial =
     (Inl (LibraryError ''shape is invalid for input''),
      initial\<lparr>trace := [LibraryRaised ''shape is invalid for input'']\<rparr>) \<and>
   BNN_forward cloudy_day strict example_bnn 3 None initial =
     (Inl (LibraryError ''ZeroDivisionError''),
      initial\<lparr>trace :=
        [SampleSite ''fc1.weight'' (ToEvent (Expand (Normal 0 1) [512, 784]) 2) 40 False,
         SampleSite ''fc1.bias'' (ToEvent (Expand (Normal 0 1) [512]) 1) 40 False,
         SampleSite ''fc2.weight'' (ToEvent (Expand (Normal 0 1) [10, 512]) 2) 40 False,
         SampleSite ''fc2.bias'' (ToEvent (Expand (Normal 0 1) [10]) 1) 40 False,
         LibraryRaised ''ZeroDivisionError'']\<rparr>) \<and>
   propagates (BNN_forward cloudy_day strict example_bnn 3 None)"
proof -
  note defs = bind_py_def pyro_sample_cases library_call_cases call_def pyro_sample_call_def
    pyro_sample_statement_def pyro_param_call_def pyro_param_def return_py_def
    one_by_one_def wrong_shape_def strict_def initial_def
  have r1: "scale_calls one_by_one broken_scale initial =
     (Inl (LibraryError ''invalid parameters''),
      initial\<lparr>trace := [SampleSite ''weight'' (Normal 10 1) 9 False,
         LibraryRaised ''invalid parameters'']\<rparr>)"
    by (simp add: scale_calls_def broken_scale_def defs)
  have r2: "weather_calls strict observing initial =
     (Inl (LibraryError ''AttributeError''),
      initial\<lparr>trace := [SampleSite ''cloudy'' (Bernoulli (3 / 10)) 1 True,
         LibraryRaised ''AttributeError'']\<rparr>)"
    by (simp add: weather_calls_def observing_def sunny_day_def defs)
  have r3: "guide_calls strict observing zero_scale =
     (Inl (LibraryError ''ValueError''), zero_scale\<lparr>trace := [LibraryRaised ''ValueError'']\<rparr>)"
    by (simp add: guide_calls_def observing_def sunny_day_def zero_scale_def defs)
  have r4: "BNN_forward sunny_day wrong_shape example_bnn 3 None initial =
     (Inl (LibraryError ''shape is invalid for input''),
      initial\<lparr>trace := [LibraryRaised ''shape is invalid for input'']\<rparr>)"
    by (simp add: BNN_forward_def defs)
  have r5: "BNN_forward cloudy_day strict example_bnn 3 None initial =
     (Inl (LibraryError ''ZeroDivisionError''),
      initial\<lparr>trace :=
        [SampleSite ''fc1.weight'' (ToEvent (Expand (Normal 0 1) [512, 784]) 2) 40 False,
         SampleSite ''fc1.bias'' (ToEvent (Expand (Normal 0 1) [512]) 1) 40 False,
         SampleSite ''fc2.weight'' (ToEvent (Expand (Normal 0 1) [10, 512]) 2) 40 False,
         SampleSite ''fc2.bias'' (ToEvent (Expand (Normal 0 1) [10]) 1) 40 False,
         LibraryRaised ''ZeroDivisionError'']\<rparr>)"
    by (simp add: BNN_forward_def pyro_plate_def example_bnn_def cloudy_day_def defs)
  have p1: "propagates (scale_calls one_by_one broken_scale)"
    by (rule library_exceptions_propagate [THEN conjunct2, THEN conjunct2, THEN conjunct1])
  have p2: "propagates (weather_calls strict observing)"
    by (rule library_exceptions_propagate [THEN conjunct1])
  have p3: "propagates (guide_calls strict observing)"
    by (rule library_exceptions_propagate [THEN conjunct2, THEN conjunct2, THEN conjunct2,
          THEN conjunct2, THEN conjunct2, THEN conjunct1])
  have p5: "propagates (BNN_forward cloudy_day strict example_bnn 3 None)"
    by (rule library_exceptions_propagate [THEN conjunct2, THEN conjunct2, THEN conjunct2,
          THEN conjunct2, THEN conjunct2, THEN conjunct2, THEN conjunct2, THEN conjunct2,
          THEN conjunct2])
  show ?thesis
    by (intro conjI r1 p1 r2 p2 r3 p3 r4 r5 p5)
qed

text \<open>
  Claim C2, as amended. \<open>weather\<close> decides one conditional in every run that returns, and
  \<open>ice_cream_sales\<close> two (the one inside \<open>weather\<close> and its own choice of the expected
  sales); \<open>scale\<close>, \<open>scale_obs\<close>, \<open>conditioned_scale\<close>, \<open>guide\<close> and the constructors and
  forward passes of \<open>NN\<close> and \<open>BNN\<close> decide none. No run decides more.
\<close>

theorem branches_per_function:
  "takes_branches 1 (weather R) \<and> takes_branches 2 (ice_cream_sales R) \<and>
   takes_branches 0 (scale R) \<and> takes_branches 0 (scale_obs R) \<and>
   takes_branches 0 (conditioned_scale R) \<and> takes_branches 0 (guide R) \<and>
   takes_branches 0 (NN_init T i h out) \<and> takes_branches 0 (NN_forward T self x) \<and>
   takes_branches 0 (BNN_init T i h out) \<and> takes_branches 0 (BNN_forward R' T b x y)"
  unfolding conditioned_scale_eq
  by (intro conjI takes_branches_weather takes_branches_ice takes_branches_scale
      takes_branches_scale_obs takes_branches_guide takes_branches_NN_init
      takes_branches_NN_forward takes_branches_BNN_init takes_branches_BNN_forward)

lemma takes_branches_run:
  assumes "takes_branches n m" and "fst (m s) = Inr r"
  shows "branches (trace (snd (m s))) = branches (trace s) + n"
proof -
  from assms(1) have "\<exists>new. trace (snd (m s)) = trace s @ new \<and> branches new \<le> n \<and>
        (case fst (m s) of Inl _ \<Rightarrow> True | Inr _ \<Rightarrow> branches new = n)"
    unfolding takes_branches_def by simp
  with assms(2) show ?thesis by auto
qed

text \<open>A cloudy run of \<open>ice_cream_sales\<close> and a forward pass of the Bayesian network.\<close>

theorem branches_per_function_witness:
  "ice_cream_sales cloudy_day initial =
     (Inr (''cloudy'', 40),
      initial\<lparr>trace := [SampleSite ''cloudy'' (Bernoulli (3 / 10)) 1 False, Branch True,
         SampleSite ''temperature'' (Normal 55 10) 50 False, Branch False,
         SampleSite ''ice_cream'' (Normal 50 10) 40 False]\<rparr>) \<and>
   branches (trace (snd (ice_cream_sales cloudy_day initial))) = 2 \<and>
   BNN_forward cloudy_day one_by_one example_bnn 3 None initial =
     (Inr (),
      initial\<lparr>trace :=
        [SampleSite ''fc1.weight'' (ToEvent (Expand (Normal 0 1) [512, 784]) 2) 40 False,
         SampleSite ''fc1.bias'' (ToEvent (Expand (Normal 0 1) [512]) 1) 40 False,
         SampleSite ''fc2.weight'' (ToEvent (Expand (Normal 0 1) [10, 512]) 2) 40 False,
         SampleSite ''fc2.bias'' (ToEvent (Expand (Normal 0 1) [10]) 1) 40 False,
         PlateSite ''data'' 1,
         SampleSite ''obs'' (Categorical 6440) 40 False]\<rparr>) \<and>
   branches (trace (snd (BNN_forward cloudy_day one_by_one example_bnn 3 None initial))) = 0"
proof -
  have ice: "ice_cream_sales cloudy_day initial =
     (Inr (''cloudy'', 40),
      initial\<lparr>trace := [SampleSite ''cloudy'' (Bernoulli (3 / 10)) 1 False, Branch True,
         SampleSite ''temperature'' (Normal 55 10) 50 False, Branch False,
         SampleSite ''ice_cream'' (Normal 50 10) 40 False]\<rparr>)"
    by (simp add: ice_cream_sales_def weather_eq_spec weather_spec_def bind_py_def
        pyro_sample_cases branch_def emit_def return_py_def cloudy_day_def initial_def)
  have bnn: "BNN_forward cloudy_day one_by_one example_bnn 3 None initial =
     (Inr (),
      initial\<lparr>trace :=
        [SampleSite ''fc1.weight'' (ToEvent (Expand (Normal 0 1) [512, 784]) 2) 40 False,
         SampleSite ''fc1.bias'' (ToEvent (Expand (Normal 0 1) [512]) 1) 40 False,
         SampleSite ''fc2.weight'' (ToEvent (Expand (Normal 0 1) [10, 512]) 2) 40 False,
         SampleSite ''fc2.bias'' (ToEvent (Expand (Normal 0 1) [10]) 1) 40 False,
         PlateSite ''data'' 1,
         SampleSite ''obs'' (Categorical 6440) 40 False]\<rparr>)"
    by (simp add: BNN_forward_def bind_py_def pyro_sample_cases library_call_cases emit_def
        pyro_plate_def pyro_sample_statement_def pyro_sample_call_def call_def example_bnn_def
        return_py_def cloudy_day_def one_by_one_def wrong_shape_def initial_def)
  note all = branches_per_function [where R = cloudy_day and T = one_by_one
      and R' = cloudy_day and b = example_bnn and x = 3 and y = None]
  from all have "takes_branches 2 (ice_cream_sales cloudy_day)" by blast
  then have "branches (trace (snd (ice_cream_sales cloudy_day initial)))
      = branches (trace initial) + 2"
    by (rule takes_branches_run) (simp add: ice)
  moreover from all
  have "takes_branches 0 (BNN_forward cloudy_day one_by_one example_bnn 3 None)" by blast
  then have "branches (trace (snd (BNN_forward cloudy_day one_by_one example_bnn 3 None initial)))
      = branches (trace initial) + 0"
    by (rule takes_branches_run) (simp add: bnn)
  ultimately show ?thesis using ice bnn by (simp add: initial_def)
qed

text \<open>
  Claim C2 as stated fails: a run of \<open>ice_cream_sales\<close> on a sunny day at 85 degrees returns
  after two conditionals, not at most one.
\<close>

theorem ice_cream_sales_two_branches:
  "fst (ice_cream_sales sunny_day initial) = Inr (''sunny'', 210) \<and>
   branches (trace (snd (ice_cream_sales sunny_day initial))) = 2"
  by (simp add: ice_cream_sales_def weather_eq_spec weather_spec_def bind_py_def pyro_sample_cases
      branch_def emit_def return_py_def sunny_day_def initial_def branches_def)

section \<open>Properties of the source text and of the notebooks' input and output\<close>


lemmas text_defs = lines_of_code_def code_lines_def blank_def comment_only_def strip_indent_def
  indent_def

lemma loc_weather: "lines_of_code weather_src = 8"
  by (simp add: text_defs weather_src_def)

lemma loc_ice_cream_sales: "lines_of_code ice_cream_sales_src = 6"
  by (simp add: text_defs ice_cream_sales_src_def)

lemma loc_scale: "lines_of_code scale_src = 4"
  by (simp add: text_defs scale_src_def)

lemma loc_guide: "lines_of_code guide_src = 5"
  by (simp add: text_defs guide_src_def)

lemma loc_bnn_guide: "code_lines bnn_guide_src = [''def guide(x, y=None):'']"
  by (simp add: text_defs bnn_guide_src_def)

lemma loc_NN: "lines_of_code NN_src = 13"
  by (simp add: text_defs NN_src_def)

lemma loc_BNN: "lines_of_code BNN_src = 18"
  by (simp add: text_defs BNN_src_def)

text \<open>
  Claim C7, as amended. Blank and comment-only lines not counted, \<open>weather\<close> has 8 lines of
  code, \<open>ice_cream_sales\<close> 6, \<open>scale\<close> 4, the \<open>guide\<close> of the first notebook 5, the \<open>guide\<close>
  of the second 1 and the class \<open>NN\<close> 13 (15 lines with its two blank ones): each is under
  15. The class \<open>BNN\<close> has 18 lines of code, 24 lines in all.
\<close>

theorem lines_of_code_per_function:
  "lines_of_code weather_src = 8 \<and> lines_of_code ice_cream_sales_src = 6 \<and>
   lines_of_code scale_src = 4 \<and> lines_of_code guide_src = 5 \<and>
   lines_of_code bnn_guide_src = 1 \<and> lines_of_code NN_src = 13 \<and> length NN_src = 15 \<and>
   lines_of_code BNN_src = 18 \<and> length BNN_src = 24"
  by (simp add: loc_weather loc_ice_cream_sales loc_scale loc_guide loc_NN loc_BNN)
     (simp add: lines_of_code_def loc_bnn_guide NN_src_def BNN_src_def)

text \<open>
  Claim C7 as stated fails for the class \<open>BNN\<close>, whether blank lines are counted or not.
\<close>

theorem BNN_not_under_15_lines:
  "\<not> lines_of_code BNN_src < 15 \<and> \<not> length BNN_src < 15"
  by (simp add: loc_BNN) (simp add: BNN_src_def)

lemmas cell_defs = intro_task1_cell_def intro_task2_cell_def intro_extension_cell_def
  intro_task3_4_cell_def bnn_task1_cell_def bnn_task2_3_cell_def bnn_task4_cell_def
  bnn_guide_src_def bnn_task6_cell_def bnn_task7_cell_def bnn_task8_cell_def
  bnn_extension_cell_def

lemma has_todo_cells:
  "map (has_todo \<circ> cell_of) exercises =
     [True, True, False, True, True, True, True, True, True, True, True, True, True, False]"
  by (simp add: exercises_def cell_of_def has_todo_def todo_comment_def strip_indent_def
      cell_defs)

lemma todo_only_cells:
  "map (todo_only \<circ> cell_of) exercises =
     [False, False, False, True, True, True, False, False, True, False, False, True, True,
      False]"
  by (simp add: exercises_def cell_of_def todo_only_def has_todo_def todo_comment_def blank_def
      strip_indent_def cell_defs)

lemma length_filter_map: "length (filter P xs) = length (filter id (map P xs))"
  by (induction xs) simp_all

lemma def_bnn_guide: "def_statement bnn_guide_src = Inl IndentationError"
  by (simp add: def_statement_def loc_bnn_guide)

lemma def_scale: "def_statement scale_src = Inr (tl scale_src)"
  by (simp add: def_statement_def text_defs scale_src_def)

text \<open>
  Claim C6, as amended. Of the 14 exercise tasks of the two notebooks, the code cell of 12
  (all the numbered ones) carries the comment \<open>## TODO: write some code here\<close> where the
  solution would be; for 6 of them the cell is that comment alone. The cell of the second
  notebook's \<open>guide\<close> is the header \<open>def guide(x, y=None):\<close> followed only by blank lines and
  the comment: it has no statement in its body, and Python rejects the definition, where it
  accepts that of \<open>scale\<close> with the three lines of its body.
\<close>

theorem exercises_left_as_stubs:
  "length exercises = 14 \<and>
   length (filter (has_todo \<circ> cell_of) exercises) = 12 \<and>
   length (filter (todo_only \<circ> cell_of) exercises) = 6 \<and>
   code_lines bnn_guide_src = [''def guide(x, y=None):''] \<and>
   has_todo bnn_guide_src \<and> \<not> todo_only bnn_guide_src \<and>
   def_statement bnn_guide_src = Inl IndentationError \<and>
   def_statement scale_src = Inr (tl scale_src)"
proof -
  have "length exercises = 14" by (simp add: exercises_def)
  moreover have "length (filter (has_todo \<circ> cell_of) exercises) = 12"
    by (subst length_filter_map) (simp only: has_todo_cells, simp)
  moreover have "length (filter (todo_only \<circ> cell_of) exercises) = 6"
    by (subst length_filter_map) (simp only: todo_only_cells, simp)
  moreover have "has_todo bnn_guide_src \<and> \<not> todo_only bnn_guide_src"
    by (simp add: todo_only_def has_todo_def todo_comment_def blank_def strip_indent_def
        bnn_guide_src_def)
  ultimately show ?thesis by (simp add: loc_bnn_guide def_bnn_guide def_scale)
qed

text \<open>
  Claim C6 as stated fails in its last part: the \<open>guide\<close> of the second notebook is not a
  function that returns \<open>None\<close>; its definition is a syntax error, and nothing is defined.
\<close>

theorem bnn_guide_is_rejected:
  "def_statement bnn_guide_src = Inl IndentationError"
  by (rule def_bnn_guide)

lemma run_cells_append:
  "run_cells (cs @ ds) w = (case run_cells cs w of Inl e \<Rightarrow> Inl e | Inr w' \<Rightarrow> run_cells ds w')"
  by (induction cs arbitrary: w) (auto split: sum.splits)

lemma run_cells_images:
  "run_cells (map Image_open ps) w =
     (if set ps \<subseteq> set (files w) then Inr (w\<lparr>io := io w @ map ReadFile ps\<rparr>)
      else Inl (FileNotFoundError (hd (filter (\<lambda>p. p \<notin> set (files w)) ps))))"
  by (induction ps arbitrary: w) (auto simp: Image_open_def)

lemma letters_cell_run:
  "letters_cell w =
     (if set (map letter_path letters) \<subseteq> set (files w)
      then Inr (w\<lparr>io := io w @ map (ReadFile \<circ> letter_path) letters @ [ShowPlot]\<rparr>)
      else Inl (FileNotFoundError
        (hd (filter (\<lambda>p. p \<notin> set (files w)) (map letter_path letters)))))"
proof -
  have "letters_cell w = (case run_cells (map Image_open (map letter_path letters)) w of
      Inl e \<Rightarrow> Inl e | Inr w' \<Rightarrow> run_cells [plt_show] w')"
    unfolding letters_cell_def by (simp add: run_cells_append comp_def)
  then show ?thesis
    by (simp only: run_cells_images) (simp add: plt_show_def)
qed

lemma load_data_cell_run:
  "load_data_cell w =
     (if ''./data/MNIST'' \<in> set (files w)
      then Inr (w\<lparr>io := io w @ [ReadFile ''./data/MNIST'', ReadFile ''./data/MNIST'']\<rparr>)
      else Inr (w\<lparr>files := ''./data/MNIST'' # files w,
                  io := io w @ [Download ''./data/MNIST'', ReadFile ''./data/MNIST'',
                     ReadFile ''./data/MNIST'']\<rparr>))"
  by (simp add: load_data_cell_def datasets_MNIST_def Let_def)

lemma letter_path_not_mnist: "letter_path l \<noteq> ''./data/MNIST''"
  by (simp add: letter_path_def)

lemma intro_notebook_run: "intro_notebook w = Inr (w\<lparr>io := io w @ replicate 17 Print\<rparr>)"
  by (simp add: intro_notebook_def print_out_def numeral_eq_Suc)

lemma bnn_notebook_run:
  "bnn_notebook w =
     (if set (map letter_path letters) \<subseteq> set (files w)
      then Inr (w\<lparr>files := (if ''./data/MNIST'' \<in> set (files w) then files w
                             else ''./data/MNIST'' # files w),
                  io := io w @
                    (if ''./data/MNIST'' \<in> set (files w) then []
                     else [Download ''./data/MNIST'']) @
                    [ReadFile ''./data/MNIST'', ReadFile ''./data/MNIST''] @
                    map (ReadFile \<circ> letter_path) letters @ [ShowPlot]\<rparr>)
      else Inl (FileNotFoundError
        (hd (filter (\<lambda>p. p \<notin> set (files w)) (map letter_path letters)))))"
proof -
  have a: "(letter_path ` set letters \<subseteq> insert ''./data/MNIST'' S)
      = (letter_path ` set letters \<subseteq> S)" for S
    using letter_path_not_mnist by auto
  have b: "filter (\<lambda>p. p \<noteq> ''./data/MNIST'' \<and> p \<notin> S) (map letter_path letters)
      = filter (\<lambda>p. p \<notin> S) (map letter_path letters)" for S
    by (rule filter_cong) (auto simp: letter_path_not_mnist)
  show ?thesis
    by (simp add: bnn_notebook_def load_data_cell_run letters_cell_run a b)
qed

text \<open>
  Claim C5, as amended. The first notebook reads nothing and prints 17 times. A run of the
  second notebook that succeeds reads the MNIST data under \<open>./data\<close> twice, after fetching
  it from the network when it was not there, then the ten letter images, and shows one
  plot; it succeeds whenever the ten letter images are present.
\<close>

theorem notebook_inputs_and_outputs:
  "intro_notebook w = Inr (w\<lparr>io := io w @ replicate 17 Print\<rparr>) \<and>
   (bnn_notebook w = Inr w' \<longrightarrow>
      inputs w' = inputs w @
        (if ''./data/MNIST'' \<in> set (files w) then [] else [Download ''./data/MNIST'']) @
        [ReadFile ''./data/MNIST'', ReadFile ''./data/MNIST''] @
        map (ReadFile \<circ> letter_path) letters \<and>
      outputs w' = outputs w @ [ShowPlot]) \<and>
   (set (map letter_path letters) \<subseteq> set (files w) \<longrightarrow> (\<exists>w'. bnn_notebook w = Inr w'))"
proof -
  have f: "filter is_input (map (ReadFile \<circ> letter_path) ls) = map (ReadFile \<circ> letter_path) ls"
    "filter (\<lambda>ev. \<not> is_input ev) (map (ReadFile \<circ> letter_path) ls) = []" for ls
    by (induction ls) simp_all
  show ?thesis
    by (auto simp: intro_notebook_run bnn_notebook_run inputs_def outputs_def f
        split: if_splits)
qed

text \<open>With the MNIST data already under \<open>./data\<close> nothing is fetched.\<close>

theorem notebook_inputs_and_outputs_witness:
  "bnn_notebook with_mnist =
     Inr (with_mnist\<lparr>io := [ReadFile ''./data/MNIST'', ReadFile ''./data/MNIST''] @
        map (ReadFile \<circ> letter_path) letters @ [ShowPlot]\<rparr>) \<and>
   inputs (with_mnist\<lparr>io := [ReadFile ''./data/MNIST'', ReadFile ''./data/MNIST''] @
        map (ReadFile \<circ> letter_path) letters @ [ShowPlot]\<rparr>) =
     [ReadFile ''./data/MNIST'', ReadFile ''./data/MNIST''] @
        map (ReadFile \<circ> letter_path) letters"
proof -
  have run: "bnn_notebook with_mnist =
     Inr (with_mnist\<lparr>io := [ReadFile ''./data/MNIST'', ReadFile ''./data/MNIST''] @
        map (ReadFile \<circ> letter_path) letters @ [ShowPlot]\<rparr>)"
    by (simp add: bnn_notebook_run with_mnist_def subset_insertI)
  have "inputs with_mnist = []" "''./data/MNIST'' \<in> set (files with_mnist)"
    by (simp_all add: inputs_def with_mnist_def)
  with run notebook_inputs_and_outputs [of with_mnist
     "with_mnist\<lparr>io := [ReadFile ''./data/MNIST'', ReadFile ''./data/MNIST''] @
        map (ReadFile \<circ> letter_path) letters @ [ShowPlot]\<rparr>"]
  show ?thesis by simp
qed

text \<open>
  Claim C5 as stated fails: run in a checkout of the repository, the second notebook fetches
  the MNIST data from the network, and reads it besides the bundled letter images.
\<close>

theorem MNIST_is_downloaded:
  "bnn_notebook checkout =
     Inr (checkout\<lparr>files := ''./data/MNIST'' # files checkout,
        io := [Download ''./data/MNIST'', ReadFile ''./data/MNIST'', ReadFile ''./data/MNIST''] @
          map (ReadFile \<circ> letter_path) letters @ [ShowPlot]\<rparr>)"
proof -
  have "''./data/MNIST'' \<notin> set (files checkout)"
    using letter_path_not_mnist [symmetric] by (auto simp: checkout_def)
  then show ?thesis by (simp add: bnn_notebook_run) (simp add: checkout_def)
qed

end
